theory Spec2Isabelle
  imports Main "HOL-Library.Word"
begin

section \<open>Strings\<close>

text \<open>
  \<open>String.prototype.split\<close> with a one-character separator: the pieces between the
  separators, in order. The empty string splits into one empty piece, never into none, so
  the last case of the function below is never reached.
\<close>

fun split :: "char \<Rightarrow> string \<Rightarrow> string list" where
  "split c [] = [ [] ]"
| "split c (x # xs) =
     (if x = c then [] # split c xs
      else (case split c xs of
              piece # pieces \<Rightarrow> (x # piece) # pieces
            | [] \<Rightarrow> [ [x] ]))"

section \<open>The variable interpolator\<close>

text \<open>
  \<open>templateSrv.replace(text, scopedVars, format?)\<close> belongs to the host application; it is a
  parameter of every operation that interpolates. Scoped variables are an object, here an
  association list; \<open>{}\<close> is the empty list.
\<close>

type_synonym scopedVars = "(string \<times> string) list"

type_synonym templateSrv = "string \<Rightarrow> scopedVars \<Rightarrow> string option \<Rightarrow> string"

definition orEmpty :: "scopedVars option \<Rightarrow> scopedVars" where
  \<comment> \<open>\<open>scopedVars || {}\<close>\<close>
  "orEmpty sv = (case sv of None \<Rightarrow> [] | Some v \<Rightarrow> v)"

section \<open>Group-by interpolation\<close>

text \<open>
  \<open>interpolateGroupBys\<close>: the \<open>forEach\<close> over \<open>groupBys || []\<close> is a left fold whose
  accumulator is \<open>interpolatedGroupBys\<close>. The result of \<open>split\<close> is always an array, so
  only the \<open>concat\<close> branch of the \<open>Array.isArray\<close> test can run.
\<close>

definition interpolateGroupBys ::
  "templateSrv \<Rightarrow> string list option \<Rightarrow> scopedVars option \<Rightarrow> string list" where
  "interpolateGroupBys replace groupBys scopedVars =
     foldl (\<lambda>interpolatedGroupBys gb.
              let interpolated = split CHR '','' (replace gb (orEmpty scopedVars) (Some ''csv''))
              in interpolatedGroupBys @ interpolated)
           []
           (case groupBys of None \<Rightarrow> [] | Some gbs \<Rightarrow> gbs)"

section \<open>JavaScript values\<close>

text \<open>
  Error values, and the values \<open>JSON.parse\<close> builds, have no static shape: they are
  modelled as plain JavaScript data. An object is a plain object, given by its own
  properties in enumeration order, their values data again (none is callable). Numbers
  are the integers from \<open>-2^53\<close> to \<open>2^53 - 1\<close>, kept in 54 bits and read as signed:
  the numbers that JavaScript prints as their decimal digits. The program only tests
  numbers for truthiness and appends them to strings.
\<close>

datatype jsval =
    JUndefined
  | JNull
  | JBool bool
  | JNum "54 word"
  | JStr string
  | JArr "jsval list"
  | JObj "(string \<times> jsval) list"

text \<open>Values are thrown as they are; a function that can throw returns \<open>jsval + 'a\<close>.\<close>

definition TypeError :: jsval where
  \<comment> \<open>an instance of \<open>TypeError\<close>: an object without \<open>statusText\<close> and without \<open>data\<close>\<close>
  "TypeError = JObj [(''name'', JStr ''TypeError'')]"

definition SyntaxError :: jsval where
  "SyntaxError = JObj [(''name'', JStr ''SyntaxError'')]"

fun truthy :: "jsval \<Rightarrow> bool" where
  "truthy JUndefined = False"
| "truthy JNull = False"
| "truthy (JBool b) = b"
| "truthy (JNum n) = (n \<noteq> 0)"
| "truthy (JStr s) = (s \<noteq> [])"
| "truthy (JArr xs) = True"
| "truthy (JObj kvs) = True"

fun showNat :: "nat \<Rightarrow> string" where
  "showNat n =
     (if n < 10 then [''0123456789'' ! n]
      else showNat (n div 10) @ [''0123456789'' ! (n mod 10)])"

definition showInt :: "int \<Rightarrow> string" where
  "showInt i = (if i < 0 then CHR ''-'' # showNat (nat (- i)) else showNat (nat i))"

text \<open>
  The conversion to a string that \<open>+\<close> with a string operand and \<open>JSON.parse\<close> apply to a
  value. A plain object is converted by the \<open>toString\<close> it finds: the inherited one gives
  \<open>[object Object]\<close>; an own property of that name hides it and, being data, cannot be
  called, and since the inherited \<open>valueOf\<close> returns the object itself and an own one
  cannot be called either, the conversion throws a \<open>TypeError\<close>. An array is converted by
  \<open>join\<close>: its elements converted in turn and separated by commas, \<open>null\<close> and
  \<open>undefined\<close> elements giving the empty string; the first element whose conversion
  throws makes the whole conversion throw.
\<close>

fun toString :: "jsval \<Rightarrow> jsval + string"
  and join :: "jsval list \<Rightarrow> jsval + string"
where
  "toString JUndefined = Inr ''undefined''"
| "toString JNull = Inr ''null''"
| "toString (JBool b) = Inr (if b then ''true'' else ''false'')"
| "toString (JNum n) = Inr (showInt (sint n))"
| "toString (JStr s) = Inr s"
| "toString (JArr xs) = join xs"
| "toString (JObj kvs) =
     (if ''toString'' \<in> set (map fst kvs) then Inl TypeError else Inr ''[object Object]'')"
| "join [] = Inr []"
| "join (x # xs) =
     (case (if x = JUndefined \<or> x = JNull then Inr [] else toString x) of
        Inl e \<Rightarrow> Inl e
      | Inr s \<Rightarrow>
          if xs = [] then Inr s
          else (case join xs of Inl e \<Rightarrow> Inl e | Inr r \<Rightarrow> Inr (s @ '','' @ r)))"

text \<open>\<open>v + s\<close> and \<open>s + v\<close> for a string \<open>s\<close>: the value converted, then the concatenation.\<close>

definition plusString :: "jsval \<Rightarrow> string \<Rightarrow> jsval + string" where
  "plusString v s = (case toString v of Inl e \<Rightarrow> Inl e | Inr t \<Rightarrow> Inr (t @ s))"

definition stringPlus :: "string \<Rightarrow> jsval \<Rightarrow> jsval + string" where
  "stringPlus s v = (case toString v of Inl e \<Rightarrow> Inl e | Inr t \<Rightarrow> Inr (s @ t))"

text \<open>
  Reading a property. The names this program reads from untyped values (\<open>statusText\<close>,
  \<open>data\<close>, \<open>error\<close>, \<open>code\<close>, \<open>message\<close>) are defined by no primitive, array or
  prototype, so only an object's own properties answer; reading from \<open>null\<close> or
  \<open>undefined\<close> throws a \<open>TypeError\<close>.
\<close>

fun getField :: "jsval \<Rightarrow> string \<Rightarrow> jsval + jsval" where
  "getField JUndefined k = Inl TypeError"
| "getField JNull k = Inl TypeError"
| "getField (JObj kvs) k = Inr (case map_of kvs k of None \<Rightarrow> JUndefined | Some v \<Rightarrow> v)"
| "getField v k = Inr JUndefined"

section \<open>The error formatter\<close>

text \<open>
  \<open>JSON.parse\<close> is the platform's; it is a parameter, \<open>None\<close> standing for its
  \<open>SyntaxError\<close>.
\<close>

type_synonym jsonParser = "string \<Rightarrow> jsval option"

text \<open>
  The body of the \<open>try\<close> block: what is appended when nothing throws. \<open>JSON.parse\<close>
  converts its argument to a string first; the code is read and added to \<open>. \<close> before the
  message is read and added.
\<close>

definition parsedErrorText :: "jsonParser \<Rightarrow> jsval \<Rightarrow> jsval + string" where
  "parsedErrorText parse dataError =
     (case toString dataError of
        Inl e \<Rightarrow> Inl e
      | Inr json \<Rightarrow>
          (case parse json of
             None \<Rightarrow> Inl SyntaxError
           | Some res \<Rightarrow>
               (case getField res ''error'' of
                  Inl e \<Rightarrow> Inl e
                | Inr resError \<Rightarrow>
                    (case getField resError ''code'' of
                       Inl e \<Rightarrow> Inl e
                     | Inr code \<Rightarrow>
                         (case plusString code ''. '' of
                            Inl e \<Rightarrow> Inl e
                          | Inr codeDot \<Rightarrow>
                              (case getField resError ''message'' of
                                 Inl e \<Rightarrow> Inl e
                               | Inr msg \<Rightarrow> stringPlus codeDot msg))))))"

text \<open>
  \<open>formatStackdriverError\<close>. The status text is read and converted outside the \<open>try\<close>;
  whatever the \<open>try\<close> block throws is caught, and the \<open>catch\<close> block converts
  \<open>error.data.error\<close> again to append it.
\<close>

definition formatStackdriverError :: "jsonParser \<Rightarrow> jsval \<Rightarrow> jsval + string" where
  "formatStackdriverError parse error =
     (case getField error ''statusText'' of
        Inl e \<Rightarrow> Inl e
      | Inr statusText \<Rightarrow>
          (case (if truthy statusText then plusString statusText '': '' else Inr []) of
             Inl e \<Rightarrow> Inl e
           | Inr status \<Rightarrow>
               (let message = ''Stackdriver: '' @ status
                in case getField error ''data'' of
                     Inl e \<Rightarrow> Inl e
                   | Inr data \<Rightarrow>
                       (case (if truthy data then getField data ''error'' else Inr data) of
                          Inl e \<Rightarrow> Inl e
                        | Inr dataError \<Rightarrow>
                            if truthy dataError then
                              (case parsedErrorText parse dataError of
                                 Inr text \<Rightarrow> Inr (message @ text)
                               | Inl err \<Rightarrow> stringPlus message dataError)
                            else Inr (message @ ''Cannot connect to Stackdriver API'')))))"

section \<open>The data model\<close>

subsection \<open>Panel targets and time-series descriptors\<close>

text \<open>
  A panel target. A field the source tests for truthiness and that holds a string is a
  string here, the empty string standing for the absent field as well (both are falsy);
  \<open>hide\<close> is a flag, absent meaning \<open>False\<close>. Fields defaulted with \<open>|| []\<close>, and
  \<open>unit\<close>, which is compared with \<open>===\<close>, are optional.
\<close>

record panelTarget =
  refId :: string
  hide :: bool
  metricType :: string
  crossSeriesReducer :: string
  perSeriesAligner :: string
  alignmentPeriod :: string
  groupBys :: "string list option"
  view :: string
  filters :: "string list option"
  aliasBy :: string
  unit :: "string option"

record timeRange =
  "from" :: int
  "to" :: int

record queryOptions =
  targets :: "panelTarget list"
  intervalMs :: int
  scopedVars :: "scopedVars option"
  range' :: timeRange

record timeSeriesQuery =
  refId :: string
  intervalMs :: int
  datasourceId :: int
  metricType :: string
  primaryAggregation :: string
  perSeriesAligner :: string
  alignmentPeriod :: string
  groupBys :: "string list"
  view :: string
  filters :: "string list"
  aliasBy :: string
  "type" :: string

subsection \<open>Annotations\<close>

record annotationTarget =
  metricType :: string
  title :: string
  "text" :: string
  tags :: string
  filters :: "string list option"

record annotation =
  target :: annotationTarget

record annotationOptions =
  annotation :: annotation
  scopedVars :: "scopedVars option"
  range' :: timeRange

record annotationDescriptor =
  refId :: string
  datasourceId :: int
  metricType :: string
  primaryAggregation :: string
  perSeriesAligner :: string
  title :: string
  "text" :: string
  tags :: string
  view :: string
  filters :: "string list"
  "type" :: string

text \<open>
  One returned annotation. \<open>time\<close> is the result of \<open>Date.parse\<close>, \<open>None\<close> for
  \<open>NaN\<close>; \<open>title\<close> and \<open>text\<close> are cells of a backend row, \<open>tags\<close> an array.
\<close>

record annotationEvent =
  annotation :: annotation
  time :: "int option"
  title :: jsval
  tags :: "string list"
  "text" :: jsval

subsection \<open>Requests\<close>

record ensureDefaultProjectDescriptor =
  refId :: string
  "type" :: string
  datasourceId :: int

datatype queryDescriptor =
    TimeSeriesQuery timeSeriesQuery
  | AnnotationQuery annotationDescriptor
  | EnsureDefaultProjectQuery ensureDefaultProjectDescriptor

record requestData =
  "from" :: "string option"
  "to" :: "string option"
  queries :: "queryDescriptor list"

record request =
  url :: string
  "method" :: string
  data :: "requestData option"

subsection \<open>Responses\<close>

record queryMeta =
  defaultProject :: "string option"

record series =
  name :: string
  points :: jsval

record table =
  rows :: "jsval list list"

record queryResult =
  refId :: string
  series :: "series list option"
  meta :: "queryMeta option"
  tables :: "table list option"

record metricDescriptor =
  "type" :: string
  displayName :: string
  service :: string
  serviceShortName :: string

text \<open>
  The \<open>data\<close> of a response: \<open>results\<close> maps a \<open>refId\<close> to its result, in the
  enumeration order of the object's keys; each property may be missing.
\<close>

record responseData =
  results :: "(string \<times> queryResult) list option"
  metricDescriptors :: "metricDescriptor list option"

record response =
  status :: int
  statusText :: string
  data :: responseData

record normalizedSeries =
  target :: string
  datapoints :: jsval
  refId :: string
  meta :: "queryMeta option"
  unit :: "string option"

record queryOutput =
  data :: "normalizedSeries list"

subsection \<open>The datasource instance and its surroundings\<close>

record jsonData =
  defaultProject :: string
  authenticationType :: string

record instanceSettings =
  url :: string
  id' :: int
  jsonData :: jsonData

record datasource =
  id' :: int
  url :: string
  baseUrl :: string
  projectName :: "string option"
  authenticationType :: string
  metricTypes :: "metricDescriptor list"

definition constructor :: "instanceSettings \<Rightarrow> datasource" where
  "constructor settings =
     \<lparr>datasource.id' = instanceSettings.id' settings,
      datasource.url = instanceSettings.url settings,
      baseUrl = ''/stackdriver/'',
      projectName = Some (jsonData.defaultProject (jsonData settings)),
      datasource.authenticationType =
        (if jsonData.authenticationType (jsonData settings) = [] then ''jwt''
         else jsonData.authenticationType (jsonData settings)),
      metricTypes = []\<rparr>"

text \<open>
  \<open>backendSrv.datasourceRequest\<close> is the host's transport: from its own state and a
  request it resolves with a response (\<open>Inr\<close>) or rejects with a value (\<open>Inl\<close>). The world
  around the datasource is the transport's state, the requests issued so far and the events
  emitted on \<open>appEvents\<close>.
\<close>

type_synonym 'b backendSrv = "'b \<Rightarrow> request \<Rightarrow> (jsval + response) \<times> 'b"

record 'b world =
  backend :: 'b
  requests :: "request list"
  events :: "(string \<times> string) list"

definition datasourceRequest ::
  "'b backendSrv \<Rightarrow> request \<Rightarrow> 'b world \<Rightarrow> (jsval + response) \<times> 'b world" where
  "datasourceRequest srv req w =
     (case srv (backend w) req of
        (r, b') \<Rightarrow> (r, w\<lparr>backend := b', requests := requests w @ [req]\<rparr>))"


section \<open>The query builder and the request executor\<close>

text \<open>The \<open>queries\<close> of \<open>getTimeSeries\<close>: the targets filtered, then mapped.\<close>

definition timeSeriesQueries ::
  "templateSrv \<Rightarrow> datasource \<Rightarrow> queryOptions \<Rightarrow> timeSeriesQuery list" where
  "timeSeriesQueries replace this options =
     map (\<lambda>t.
            \<lparr>timeSeriesQuery.refId = panelTarget.refId t,
             timeSeriesQuery.intervalMs = queryOptions.intervalMs options,
             timeSeriesQuery.datasourceId = datasource.id' this,
             timeSeriesQuery.metricType =
               replace (panelTarget.metricType t) (orEmpty (queryOptions.scopedVars options)) None,
             timeSeriesQuery.primaryAggregation =
               replace (if crossSeriesReducer t \<noteq> [] then crossSeriesReducer t else ''REDUCE_MEAN'')
                 (orEmpty (queryOptions.scopedVars options)) None,
             timeSeriesQuery.perSeriesAligner =
               replace (panelTarget.perSeriesAligner t) (orEmpty (queryOptions.scopedVars options)) None,
             timeSeriesQuery.alignmentPeriod =
               replace (panelTarget.alignmentPeriod t) (orEmpty (queryOptions.scopedVars options)) None,
             timeSeriesQuery.groupBys =
               interpolateGroupBys replace (panelTarget.groupBys t) (queryOptions.scopedVars options),
             timeSeriesQuery.view = (if panelTarget.view t \<noteq> [] then panelTarget.view t else ''FULL''),
             timeSeriesQuery.filters =
               map (\<lambda>f. replace f (orEmpty (queryOptions.scopedVars options)) None)
                 (case panelTarget.filters t of None \<Rightarrow> [] | Some fs \<Rightarrow> fs),
             timeSeriesQuery.aliasBy =
               replace (panelTarget.aliasBy t) (orEmpty (queryOptions.scopedVars options)) None,
             timeSeriesQuery.type = ''timeSeriesQuery''\<rparr>)
       (filter (\<lambda>t. \<not> hide t \<and> panelTarget.metricType t \<noteq> [])
          (targets options))"

definition tsdbRequest :: "string option \<Rightarrow> string option \<Rightarrow> queryDescriptor list \<Rightarrow> request" where
  "tsdbRequest f t qs =
     \<lparr>request.url = ''/api/tsdb/query'',
      request.method = ''POST'',
      request.data = Some \<lparr>requestData.from = f, requestData.to = t, requestData.queries = qs\<rparr>\<rparr>"

definition getTimeSeries ::
  "'b backendSrv \<Rightarrow> templateSrv \<Rightarrow> datasource \<Rightarrow> queryOptions \<Rightarrow> 'b world
     \<Rightarrow> (jsval + responseData) \<times> 'b world" where
  "getTimeSeries srv replace this options w =
     (let qs = timeSeriesQueries replace this options
      in if length qs > 0 then
           (case datasourceRequest srv
                   (tsdbRequest
                      (Some (showInt (timeRange.from (queryOptions.range' options))))
                      (Some (showInt (timeRange.to (queryOptions.range' options))))
                      (map TimeSeriesQuery qs)) w of
              (Inl error, w') \<Rightarrow> (Inl error, w')
            | (Inr resp, w') \<Rightarrow> (Inr (response.data resp), w'))
         else (Inr \<lparr>results = Some [], metricDescriptors = None\<rparr>, w))"

text \<open>
  \<open>doRequest\<close>: a rejected GET is issued again while \<open>maxRetries\<close> is positive, with one
  retry less.
\<close>

function doRequest ::
  "'b backendSrv \<Rightarrow> datasource \<Rightarrow> string \<Rightarrow> int \<Rightarrow> 'b world \<Rightarrow> (jsval + response) \<times> 'b world" where
  "doRequest srv this path maxRetries w =
     (case datasourceRequest srv
             \<lparr>request.url = datasource.url this @ path, request.method = ''GET'', request.data = None\<rparr> w of
        (Inr resp, w') \<Rightarrow> (Inr resp, w')
      | (Inl error, w') \<Rightarrow>
          if maxRetries > 0 then doRequest srv this path (maxRetries - 1) w'
          else (Inl error, w'))"
  by pat_completeness auto
termination
  by (relation "measure (\<lambda>(srv, this, path, maxRetries, w). nat maxRetries)") auto

declare doRequest.simps [simp del]

section \<open>The response normalizer\<close>

text \<open>
  The unit table \<open>stackdriverUnitMappings\<close> is a constant of another module: a parameter
  here, an object from unit names to display units. A property key that is \<open>undefined\<close> is
  the string \<open>undefined\<close>.
\<close>

type_synonym unitMappings = "(string \<times> string) list"

definition propertyKey :: "string option \<Rightarrow> string" where
  "propertyKey k = (case k of None \<Rightarrow> ''undefined'' | Some s \<Rightarrow> s)"

definition resolvePanelUnitFromTargets :: "unitMappings \<Rightarrow> panelTarget list \<Rightarrow> string option" where
  "resolvePanelUnitFromTargets stackdriverUnitMappings ts =
     (if length ts > 0 \<and> list_all (\<lambda>t. panelTarget.unit t = panelTarget.unit (ts ! 0)) ts then
        (if propertyKey (panelTarget.unit (ts ! 0)) \<in> fst ` set stackdriverUnitMappings then
           map_of stackdriverUnitMappings (propertyKey (panelTarget.unit (ts ! 0)))
         else None)
      else None)"

definition timeSerie :: "string option \<Rightarrow> queryResult \<Rightarrow> series \<Rightarrow> normalizedSeries" where
  "timeSerie u queryRes s =
     (let ts = \<lparr>normalizedSeries.target = series.name s,
                normalizedSeries.datapoints = series.points s,
                normalizedSeries.refId = queryResult.refId queryRes,
                normalizedSeries.meta = queryResult.meta queryRes,
                normalizedSeries.unit = None\<rparr>
      in case u of
           None \<Rightarrow> ts
         | Some v \<Rightarrow> if v \<noteq> [] then ts\<lparr>normalizedSeries.unit := Some v\<rparr> else ts)"

definition query ::
  "unitMappings \<Rightarrow> 'b backendSrv \<Rightarrow> templateSrv \<Rightarrow> datasource \<Rightarrow> queryOptions \<Rightarrow> 'b world
     \<Rightarrow> (jsval + queryOutput) \<times> 'b world" where
  "query stackdriverUnitMappings srv replace this options w =
     (case getTimeSeries srv replace this options w of
        (Inl error, w') \<Rightarrow> (Inl error, w')
      | (Inr d, w') \<Rightarrow>
          (case results d of
             Some rs \<Rightarrow>
               (Inr \<lparr>queryOutput.data =
                       foldl (\<lambda>result queryRes.
                                case queryResult.series queryRes of
                                  None \<Rightarrow> result
                                | Some ss \<Rightarrow>
                                    (let u = resolvePanelUnitFromTargets stackdriverUnitMappings
                                                  (targets options)
                                     in foldl (\<lambda>result s. result @ [timeSerie u queryRes s])
                                          result ss))
                             [] (map snd rs)\<rparr>, w')
           | None \<Rightarrow> (Inr \<lparr>queryOutput.data = []\<rparr>, w')))"

section \<open>Annotations\<close>

definition index :: "jsval list \<Rightarrow> nat \<Rightarrow> jsval" where
  \<comment> \<open>\<open>v[i]\<close>: \<open>undefined\<close> past the end\<close>
  "index v i = (if i < length v then v ! i else JUndefined)"

text \<open>The \<open>queries\<close> of \<open>annotationQuery\<close>: one descriptor.\<close>

definition annotationQueries ::
  "templateSrv \<Rightarrow> datasource \<Rightarrow> annotationOptions \<Rightarrow> queryDescriptor list" where
  "annotationQueries replace this options =
     (let a = annotationOptions.annotation options
      in [AnnotationQuery
            \<lparr>annotationDescriptor.refId = ''annotationQuery'',
             annotationDescriptor.datasourceId = datasource.id' this,
             annotationDescriptor.metricType =
               replace (annotationTarget.metricType (annotation.target a))
                 (orEmpty (annotationOptions.scopedVars options)) None,
             annotationDescriptor.primaryAggregation = ''REDUCE_NONE'',
             annotationDescriptor.perSeriesAligner = ''ALIGN_NONE'',
             annotationDescriptor.title =
               replace (annotationTarget.title (annotation.target a))
                 (orEmpty (annotationOptions.scopedVars options)) None,
             annotationDescriptor.text =
               replace (annotationTarget.text (annotation.target a))
                 (orEmpty (annotationOptions.scopedVars options)) None,
             annotationDescriptor.tags =
               replace (annotationTarget.tags (annotation.target a))
                 (orEmpty (annotationOptions.scopedVars options)) None,
             annotationDescriptor.view = ''FULL'',
             annotationDescriptor.filters =
               map (\<lambda>f. replace f (orEmpty (annotationOptions.scopedVars options)) None)
                 (case annotationTarget.filters (annotation.target a) of
                    None \<Rightarrow> [] | Some fs \<Rightarrow> fs),
             annotationDescriptor.type = ''annotationQuery''\<rparr>])"

text \<open>
  \<open>Date.parse\<close> is the platform's: a parameter. A missing \<open>results\<close>, a missing
  \<open>annotationQuery\<close> result and a missing first table each make the chain of property
  reads throw a \<open>TypeError\<close>; nothing catches it, nor a rejection of the transport.
\<close>

definition annotationQuery ::
  "(jsval \<Rightarrow> int option) \<Rightarrow> 'b backendSrv \<Rightarrow> templateSrv \<Rightarrow> datasource \<Rightarrow> annotationOptions
     \<Rightarrow> 'b world \<Rightarrow> (jsval + annotationEvent list) \<times> 'b world" where
  "annotationQuery dateParse srv replace this options w =
     (let a = annotationOptions.annotation options;
          qs = annotationQueries replace this options
      in case datasourceRequest srv
                (tsdbRequest
                   (Some (showInt (timeRange.from (annotationOptions.range' options))))
                   (Some (showInt (timeRange.to (annotationOptions.range' options))))
                   qs) w of
           (Inl error, w') \<Rightarrow> (Inl error, w')
         | (Inr resp, w') \<Rightarrow>
             (case results (response.data resp) of
                None \<Rightarrow> (Inl TypeError, w')
              | Some rs \<Rightarrow>
                  (case map_of rs ''annotationQuery'' of
                     None \<Rightarrow> (Inl TypeError, w')
                   | Some queryRes \<Rightarrow>
                       (case tables queryRes of
                          None \<Rightarrow> (Inl TypeError, w')
                        | Some [] \<Rightarrow> (Inl TypeError, w')
                        | Some (table0 # _) \<Rightarrow>
                            (Inr (map (\<lambda>v. \<lparr>annotationEvent.annotation = a,
                                             annotationEvent.time = dateParse (index v 0),
                                             annotationEvent.title = index v 1,
                                             annotationEvent.tags = [],
                                             annotationEvent.text = index v 3\<rparr>)
                                    (rows table0)), w')))))"

section \<open>The metadata resolver\<close>

text \<open>
  What the \<open>catch\<close> of \<open>getDefaultProject\<close> throws: the formatted message, or whatever the
  formatter itself throws.
\<close>

definition throwFormatted :: "jsonParser \<Rightarrow> jsval \<Rightarrow> jsval" where
  "throwFormatted parse error =
     (case formatStackdriverError parse error of Inl e \<Rightarrow> e | Inr message \<Rightarrow> JStr message)"

definition falsy :: "string option \<Rightarrow> bool" where
  \<comment> \<open>\<open>!this.projectName\<close>\<close>
  "falsy s = (s = None \<or> s = Some [])"

definition getDefaultProject ::
  "jsonParser \<Rightarrow> 'b backendSrv \<Rightarrow> datasource \<Rightarrow> 'b world
     \<Rightarrow> (jsval + string option) \<times> datasource \<times> 'b world" where
  "getDefaultProject parse srv this w =
     (if datasource.authenticationType this = ''gce'' \<or> falsy (projectName this) then
        (case datasourceRequest srv
                (tsdbRequest None None
                   [EnsureDefaultProjectQuery
                      \<lparr>ensureDefaultProjectDescriptor.refId = ''ensureDefaultProjectQuery'',
                       ensureDefaultProjectDescriptor.type = ''ensureDefaultProjectQuery'',
                       ensureDefaultProjectDescriptor.datasourceId = datasource.id' this\<rparr>]) w of
           (Inl error, w') \<Rightarrow> (Inl (throwFormatted parse error), this, w')
         | (Inr resp, w') \<Rightarrow>
             (case results (response.data resp) of
                None \<Rightarrow> (Inl (throwFormatted parse TypeError), this, w')
              | Some rs \<Rightarrow>
                  (case map_of rs ''ensureDefaultProjectQuery'' of
                     None \<Rightarrow> (Inl (throwFormatted parse TypeError), this, w')
                   | Some queryRes \<Rightarrow>
                       (case queryResult.meta queryRes of
                          None \<Rightarrow> (Inl (throwFormatted parse TypeError), this, w')
                        | Some m \<Rightarrow>
                            (Inr (queryMeta.defaultProject m),
                             this\<lparr>projectName := queryMeta.defaultProject m\<rparr>, w')))))
      else (Inr (projectName this), this, w))"




section \<open>Notions used to state the properties\<close>

text \<open>The request \<open>doRequest\<close> issues for a path, and the transport's next state after it.\<close>

definition getRequest :: "datasource \<Rightarrow> string \<Rightarrow> request" where
  "getRequest this path =
     \<lparr>request.url = datasource.url this @ path, request.method = ''GET'', request.data = None\<rparr>"

definition nextBackend :: "'b backendSrv \<Rightarrow> request \<Rightarrow> 'b \<Rightarrow> 'b" where
  "nextBackend srv req b = snd (srv b req)"

text \<open>
  Whether a value can be converted to a string: every value can, unless it is an object
  with an own \<open>toString\<close> property or an array that holds, at any depth, such an object.
\<close>

fun convertible :: "jsval \<Rightarrow> bool" where
  "convertible (JArr xs) = (\<forall>x \<in> set xs. convertible x)"
| "convertible (JObj kvs) = (''toString'' \<notin> set (map fst kvs))"
| "convertible v = True"

text \<open>
  The start of the message for a status text: \<open>Stackdriver: \<close>, followed by the status
  text and \<open>: \<close> when the status text is truthy.
\<close>

definition statusPrefix :: "jsval \<Rightarrow> jsval + string" where
  "statusPrefix st =
     (if truthy st then
        (case toString st of Inl e \<Rightarrow> Inl e | Inr s \<Rightarrow> Inr (''Stackdriver: '' @ s @ '': ''))
      else Inr ''Stackdriver: '')"

text \<open>
  \<open>error.statusText\<close> and \<open>error.data && error.data.error\<close> of an error that is neither
  \<open>null\<close> nor \<open>undefined\<close>, and the errors the formatter has no reason to throw on:
  those whose status text and \<open>data.error\<close>, where truthy, can be converted to a string.
\<close>

definition statusTextOf :: "jsval \<Rightarrow> jsval" where
  "statusTextOf error = (case getField error ''statusText'' of Inl e \<Rightarrow> JUndefined | Inr v \<Rightarrow> v)"

definition dataErrorOf :: "jsval \<Rightarrow> jsval" where
  "dataErrorOf error =
     (case getField error ''data'' of
        Inl e \<Rightarrow> JUndefined
      | Inr d \<Rightarrow>
          if truthy d then (case getField d ''error'' of Inl e \<Rightarrow> JUndefined | Inr v \<Rightarrow> v)
          else d)"

definition formattable :: "jsval \<Rightarrow> bool" where
  "formattable error =
     (error \<noteq> JUndefined \<and> error \<noteq> JNull
      \<and> (truthy (statusTextOf error) \<longrightarrow> convertible (statusTextOf error))
      \<and> (truthy (dataErrorOf error) \<longrightarrow> convertible (dataErrorOf error)))"

definition ensureRequest :: "datasource \<Rightarrow> request" where
  "ensureRequest this =
     tsdbRequest None None
       [EnsureDefaultProjectQuery
          \<lparr>ensureDefaultProjectDescriptor.refId = ''ensureDefaultProjectQuery'',
           ensureDefaultProjectDescriptor.type = ''ensureDefaultProjectQuery'',
           ensureDefaultProjectDescriptor.datasourceId = datasource.id' this\<rparr>]"

definition getDefaultProjectTwice ::
  "jsonParser \<Rightarrow> 'b backendSrv \<Rightarrow> datasource \<Rightarrow> 'b world
     \<Rightarrow> (jsval + string option) \<times> (jsval + string option) \<times> datasource \<times> 'b world" where
  "getDefaultProjectTwice parse srv this w =
     (case getDefaultProject parse srv this w of
        (first, this1, w1) \<Rightarrow> (first, getDefaultProject parse srv this1 w1))"


definition annotationRequest :: "templateSrv \<Rightarrow> datasource \<Rightarrow> annotationOptions \<Rightarrow> request" where
  "annotationRequest replace this options =
     tsdbRequest
       (Some (showInt (timeRange.from (annotationOptions.range' options))))
       (Some (showInt (timeRange.to (annotationOptions.range' options))))
       (annotationQueries replace this options)"


section \<open>Sample inputs\<close>

subsection \<open>A JSON reader for the sample runs\<close>

text \<open>
  A reader for a part of JSON, used to run the formatter on concrete payloads: objects,
  arrays, strings with the one-letter escapes, the integers from \<open>-2^53\<close> to
  \<open>2^53 - 1\<close> and the three literals; a later duplicate of an object key replaces the
  value of the earlier one. It is not \<open>JSON.parse\<close>: every other text is rejected, also
  those \<open>JSON.parse\<close> reads (fractions, exponents, larger numbers, unicode escapes).
  The properties below are proved for every parser; only the sample runs use this one.
\<close>

definition skipWs :: "string \<Rightarrow> string" where
  "skipWs = dropWhile (\<lambda>c. c = CHR '' '' \<or> c = CHR 0x09 \<or> c = CHR 0x0A \<or> c = CHR 0x0D)"

definition isDigit :: "char \<Rightarrow> bool" where
  "isDigit c = (c \<in> set ''0123456789'')"

definition unescape :: "char \<Rightarrow> char option" where
  "unescape e =
     (if e = CHR 0x22 \<or> e = CHR 0x5C \<or> e = CHR ''/'' then Some e
      else if e = CHR ''b'' then Some (CHR 0x08)
      else if e = CHR ''f'' then Some (CHR 0x0C)
      else if e = CHR ''n'' then Some (CHR 0x0A)
      else if e = CHR ''r'' then Some (CHR 0x0D)
      else if e = CHR ''t'' then Some (CHR 0x09)
      else None)"

fun readString :: "string \<Rightarrow> (string \<times> string) option" where
  "readString [] = None"
| "readString (c # r) =
     (if c = CHR 0x22 then Some ([], r)
      else if c = CHR 0x5C then
        (case r of
           [] \<Rightarrow> None
         | e # r' \<Rightarrow>
             (case unescape e of
                None \<Rightarrow> None
              | Some ch \<Rightarrow> map_option (apfst ((#) ch)) (readString r')))
      else if (of_char c :: nat) < 32 then None
      else map_option (apfst ((#) c)) (readString r))"

definition readNat :: "string \<Rightarrow> (int \<times> string) option" where
  "readNat s =
     (let ds = takeWhile isDigit s; r = dropWhile isDigit s
      in if ds = [] \<or> (hd ds = CHR ''0'' \<and> length ds > 1) then None
         else if r \<noteq> [] \<and> (hd r = CHR ''.'' \<or> hd r = CHR ''e'' \<or> hd r = CHR ''E'') then None
         else Some (foldl (\<lambda>a d. 10 * a + (of_char d - 48)) 0 ds, r))"

definition readLiteral :: "string \<Rightarrow> (jsval \<times> string) option" where
  "readLiteral s =
     (if take 4 s = ''true'' then Some (JBool True, drop 4 s)
      else if take 5 s = ''false'' then Some (JBool False, drop 5 s)
      else if take 4 s = ''null'' then Some (JNull, drop 4 s)
      else if take 1 s = ''-'' then
        (case readNat (drop 1 s) of
           None \<Rightarrow> None
         | Some (n, r) \<Rightarrow>
             if n \<le> 9007199254740992 then Some (JNum (of_int (- n)), r) else None)
      else
        (case readNat s of
           None \<Rightarrow> None
         | Some (n, r) \<Rightarrow>
             if n < 9007199254740992 then Some (JNum (of_int n), r) else None))"

fun setField :: "(string \<times> jsval) list \<Rightarrow> string \<Rightarrow> jsval \<Rightarrow> (string \<times> jsval) list" where
  "setField [] k v = [(k, v)]"
| "setField ((k', v') # kvs) k v =
     (if k' = k then (k, v) # kvs else (k', v') # setField kvs k v)"

fun readValue :: "nat \<Rightarrow> string \<Rightarrow> (jsval \<times> string) option"
  and readElements :: "nat \<Rightarrow> jsval list \<Rightarrow> string \<Rightarrow> (jsval \<times> string) option"
  and readMembers :: "nat \<Rightarrow> (string \<times> jsval) list \<Rightarrow> string \<Rightarrow> (jsval \<times> string) option"
where
  "readValue 0 s = None"
| "readValue (Suc n) s =
     (case skipWs s of
        [] \<Rightarrow> None
      | c # r \<Rightarrow>
          if c = CHR ''{'' then
            (case skipWs r of
               [] \<Rightarrow> None
             | d # r' \<Rightarrow> if d = CHR ''}'' then Some (JObj [], r') else readMembers n [] r)
          else if c = CHR ''['' then
            (case skipWs r of
               [] \<Rightarrow> None
             | d # r' \<Rightarrow> if d = CHR '']'' then Some (JArr [], r') else readElements n [] r)
          else if c = CHR 0x22 then map_option (apfst JStr) (readString r)
          else readLiteral (c # r))"
| "readElements 0 acc s = None"
| "readElements (Suc n) acc s =
     (case readValue n s of
        None \<Rightarrow> None
      | Some (v, r) \<Rightarrow>
          (case skipWs r of
             [] \<Rightarrow> None
           | c # r' \<Rightarrow>
               if c = CHR '','' then readElements n (acc @ [v]) r'
               else if c = CHR '']'' then Some (JArr (acc @ [v]), r')
               else None))"
| "readMembers 0 acc s = None"
| "readMembers (Suc n) acc s =
     (case skipWs s of
        [] \<Rightarrow> None
      | q # s' \<Rightarrow>
          if q \<noteq> CHR 0x22 then None
          else
            (case readString s' of
               None \<Rightarrow> None
             | Some (k, r) \<Rightarrow>
                 (case skipWs r of
                    [] \<Rightarrow> None
                  | c # r' \<Rightarrow>
                      if c \<noteq> CHR '':'' then None
                      else
                        (case readValue n r' of
                           None \<Rightarrow> None
                         | Some (v, r'') \<Rightarrow>
                             (case skipWs r'' of
                                [] \<Rightarrow> None
                              | d # r''' \<Rightarrow>
                                  if d = CHR '','' then readMembers n (setField acc k v) r'''
                                  else if d = CHR ''}'' then Some (JObj (setField acc k v), r''')
                                  else None)))))"

definition readJSON :: jsonParser where
  "readJSON s =
     (case readValue (2 * length s + 2) s of
        None \<Rightarrow> None
      | Some (v, r) \<Rightarrow> if skipWs r = [] then Some v else None)"

subsection \<open>Errors, transports and options\<close>

definition okResponse :: response where
  "okResponse =
     \<lparr>status = 200, statusText = ''OK'',
      response.data = \<lparr>results = None, metricDescriptors = None\<rparr>\<rparr>"

definition failure :: "nat \<Rightarrow> jsval" where
  "failure k = JObj [(''statusText'', JStr ''Bad Gateway''), (''attempt'', JNum (of_nat k))]"

text \<open>Transports whose state counts the requests received.\<close>

definition failsOnce :: "nat backendSrv" where
  "failsOnce b req = (if b = 0 then (Inl (failure b), Suc b) else (Inr okResponse, Suc b))"

definition alwaysFails :: "nat backendSrv" where
  "alwaysFails b req = (Inl (failure b), Suc b)"

definition sampleDatasource :: datasource where
  "sampleDatasource =
     constructor
       \<lparr>instanceSettings.url = ''/api/datasources/proxy/7'', instanceSettings.id' = 7,
        jsonData = \<lparr>jsonData.defaultProject = [], jsonData.authenticationType = []\<rparr>\<rparr>"

definition world0 :: "nat world" where
  "world0 = \<lparr>backend = 0, requests = [], events = []\<rparr>"




definition emptyErrorText :: string where
  \<open>emptyErrorText = ''{"error":{}}''\<close>

definition emptyError :: jsval where
  "emptyError = JObj [(''data'', JObj [(''error'', JStr emptyErrorText)])]"

definition sampleReplace :: templateSrv where
  "sampleReplace txt sv fmt = (case map_of sv txt of None \<Rightarrow> txt | Some v \<Rightarrow> v)"

definition cpuTarget :: panelTarget where
  "cpuTarget =
     \<lparr>panelTarget.refId = ''A'', hide = False,
      panelTarget.metricType = ''compute.googleapis.com/instance/cpu/utilization'',
      crossSeriesReducer = [], panelTarget.perSeriesAligner = ''ALIGN_MEAN'',
      panelTarget.alignmentPeriod = ''$period'', panelTarget.groupBys = Some [''$zones''],
      panelTarget.view = [], panelTarget.filters = None, panelTarget.aliasBy = [],
      panelTarget.unit = Some ''By''\<rparr>"

definition sampleOptions :: "panelTarget list \<Rightarrow> queryOptions" where
  "sampleOptions ts =
     \<lparr>targets = ts, queryOptions.intervalMs = 1000,
      queryOptions.scopedVars = Some [(''$zones'', ''us-east1,us-west1''), (''$period'', ''60s'')],
      queryOptions.range' = \<lparr>timeRange.from = 1541030400000, timeRange.to = 1541034000000\<rparr>\<rparr>"

definition sampleUnits :: unitMappings where
  "sampleUnits = [(''By'', ''bytes''), (''s'', ''s'')]"

definition sampleResults :: "(string \<times> queryResult) list" where
  "sampleResults =
     [(''A'', \<lparr>queryResult.refId = ''A'',
               series = Some [\<lparr>series.name = ''cpu us-east1'', points = JArr [JArr [JNum 3, JNum 1541030400000]]\<rparr>,
                              \<lparr>series.name = ''cpu us-west1'', points = JArr []\<rparr>],
               queryResult.meta = None, tables = None\<rparr>),
      (''ensureDefaultProjectQuery'',
         \<lparr>queryResult.refId = ''ensureDefaultProjectQuery'', series = None,
          queryResult.meta = Some \<lparr>queryMeta.defaultProject = Some ''my-project''\<rparr>, tables = None\<rparr>),
      (''annotationQuery'',
         \<lparr>queryResult.refId = ''annotationQuery'', series = None, queryResult.meta = None,
          tables = Some [\<lparr>rows = [ [JStr ''1970-01-01T00:00:01Z'', JStr ''deploy'', JStr ''unused'', JStr ''v1.2''],
                                    [JStr ''yesterday'', JStr ''short row'']]\<rparr>]\<rparr>)]"

definition sampleDescriptors :: "metricDescriptor list" where
  "sampleDescriptors =
     [\<lparr>metricDescriptor.type = ''compute.googleapis.com/instance/cpu/utilization'',
       displayName = ''CPU utilization'', service = [], serviceShortName = []\<rparr>,
      \<lparr>metricDescriptor.type = ''pubsub.googleapis.com/topic/send_request_count'',
       displayName = [], service = [], serviceShortName = []\<rparr>]"

definition stackdriver :: "nat backendSrv" where
  "stackdriver b req =
     (Inr \<lparr>status = 200, statusText = ''OK'',
           response.data =
             (if request.method req = ''GET''
              then \<lparr>results = None, metricDescriptors = Some sampleDescriptors\<rparr>
              else \<lparr>results = Some sampleResults, metricDescriptors = None\<rparr>)\<rparr>,
      Suc b)"

definition gceDatasource :: datasource where
  "gceDatasource =
     constructor
       \<lparr>instanceSettings.url = ''/api/datasources/proxy/7'', instanceSettings.id' = 7,
        jsonData = \<lparr>jsonData.defaultProject = [], jsonData.authenticationType = ''gce''\<rparr>\<rparr>"



definition sampleDateParse :: "jsval \<Rightarrow> int option" where
  "sampleDateParse v = (if v = JStr ''1970-01-01T00:00:01Z'' then Some 1000 else None)"

definition sampleAnnotation :: annotationOptions where
  "sampleAnnotation =
     \<lparr>annotationOptions.annotation =
        \<lparr>annotation.target =
           \<lparr>annotationTarget.metricType = ''compute.googleapis.com/instance/uptime'',
            annotationTarget.title = ''$zones'', annotationTarget.text = ''restart'',
            annotationTarget.tags = ''ops,deploy'', annotationTarget.filters = None\<rparr>\<rparr>,
      annotationOptions.scopedVars = None,
      annotationOptions.range' = \<lparr>timeRange.from = 0, timeRange.to = 5000\<rparr>\<rparr>"


definition ownToString :: jsval where
  "ownToString = JObj [(''toString'', JNum 1)]"

definition unprintableCodeText :: string where
  \<open>unprintableCodeText = ''{"error":{"code":{"toString":1},"message":"m"}}''\<close>



definition unprintableCodeError :: jsval where
  "unprintableCodeError = JObj [(''data'', JObj [(''error'', JStr unprintableCodeText)])]"

section \<open>Properties of group-by interpolation\<close>


lemma split_length: "length (split c s) = Suc (count_list s c)"
  by (induction s) (auto split: list.splits)


lemma foldl_append_concat:
  "foldl (\<lambda>acc x. acc @ f x) acc xs = acc @ concat (map f xs)"
  by (induction xs arbitrary: acc) simp_all

text \<open>
  Claim C4. The interpolated group-bys are the comma-split interpolations of the entries,
  concatenated in input order; an entry between two runs of entries contributes its own
  pieces, one more than it has commas, between the pieces of the runs before and after it.
\<close>

theorem interpolateGroupBys_flatten:
  "interpolateGroupBys replace (Some gbs) sv =
     concat (map (\<lambda>gb. split CHR '','' (replace gb (orEmpty sv) (Some ''csv''))) gbs)
   \<and> interpolateGroupBys replace (Some (pre @ gb # post)) sv =
     interpolateGroupBys replace (Some pre) sv
       @ split CHR '','' (replace gb (orEmpty sv) (Some ''csv''))
       @ interpolateGroupBys replace (Some post) sv
   \<and> length (split CHR '','' (replace gb (orEmpty sv) (Some ''csv''))) =
     Suc (count_list (replace gb (orEmpty sv) (Some ''csv'')) CHR '','')
   \<and> interpolateGroupBys replace None sv = []"
  by (simp add: interpolateGroupBys_def Let_def foldl_append_concat split_length)

text \<open>
  Claim C4 on three entries, the second of which expands to two values, and on an entry
  with an empty piece followed by an empty entry.
\<close>

theorem interpolateGroupBys_flatten_witness:
  "interpolateGroupBys sampleReplace
       (Some [''metric.label.instance_name'', ''$zones'', ''resource.type''])
       (Some [(''$zones'', ''us-east1,us-west1'')]) =
     [''metric.label.instance_name'', ''us-east1'', ''us-west1'', ''resource.type'']
   \<and> interpolateGroupBys sampleReplace (Some [''a,,b'', []]) None = [''a'', [], ''b'', []]"
proof -
  note t1 = interpolateGroupBys_flatten[of sampleReplace
      "[''metric.label.instance_name'', ''$zones'', ''resource.type'']"
      "Some [(''$zones'', ''us-east1,us-west1'')]" "[]" "[]" "[]", THEN conjunct1]
  note t2 = interpolateGroupBys_flatten[of sampleReplace "[''a,,b'', []]" None "[]" "[]" "[]",
      THEN conjunct1]
  show ?thesis
    unfolding t1 t2 by (simp add: sampleReplace_def orEmpty_def)
qed

section \<open>Properties of the query builder\<close>

lemma timeSeriesQueries_empty_iff:
  "timeSeriesQueries replace this options = [] \<longleftrightarrow>
     (\<forall>t \<in> set (targets options). hide t \<or> panelTarget.metricType t = [])"
  by (auto simp: timeSeriesQueries_def filter_empty_conv)

text \<open>
  Claim C2. The batch of \<open>getTimeSeries\<close> has one descriptor for each target that is not
  hidden and has a non-empty metric type, in the order of the targets, and nothing for the
  others: its length is the number of such targets, and it is the batch of the one request
  issued when it is not empty.
\<close>

theorem timeSeriesQueries_one_per_target:
  "length (timeSeriesQueries replace this options) =
     length (filter (\<lambda>t. \<not> hide t \<and> panelTarget.metricType t \<noteq> []) (targets options))
   \<and> map timeSeriesQuery.refId (timeSeriesQueries replace this options) =
     map panelTarget.refId
       (filter (\<lambda>t. \<not> hide t \<and> panelTarget.metricType t \<noteq> []) (targets options))
   \<and> requests (snd (getTimeSeries srv replace this options w)) =
     requests w @
       (if timeSeriesQueries replace this options = [] then []
        else [tsdbRequest
                (Some (showInt (timeRange.from (queryOptions.range' options))))
                (Some (showInt (timeRange.to (queryOptions.range' options))))
                (map TimeSeriesQuery (timeSeriesQueries replace this options))])"
  by (simp add: timeSeriesQueries_def getTimeSeries_def datasourceRequest_def Let_def comp_def
           split: prod.splits sum.splits)

text \<open>
  Claim C2 on four targets, the second hidden and the third without metric type.
\<close>

theorem timeSeriesQueries_one_per_target_witness:
  "map timeSeriesQuery.refId
      (timeSeriesQueries sampleReplace sampleDatasource
         (sampleOptions
            [cpuTarget, cpuTarget\<lparr>panelTarget.refId := ''B'', hide := True\<rparr>,
             cpuTarget\<lparr>panelTarget.refId := ''C'', panelTarget.metricType := []\<rparr>,
             cpuTarget\<lparr>panelTarget.refId := ''D''\<rparr>])) = [''A'', ''D'']
   \<and> length
      (timeSeriesQueries sampleReplace sampleDatasource
         (sampleOptions
            [cpuTarget, cpuTarget\<lparr>panelTarget.refId := ''B'', hide := True\<rparr>,
             cpuTarget\<lparr>panelTarget.refId := ''C'', panelTarget.metricType := []\<rparr>,
             cpuTarget\<lparr>panelTarget.refId := ''D''\<rparr>])) = 2"
proof -
  let ?options = "sampleOptions
            [cpuTarget, cpuTarget\<lparr>panelTarget.refId := ''B'', hide := True\<rparr>,
             cpuTarget\<lparr>panelTarget.refId := ''C'', panelTarget.metricType := []\<rparr>,
             cpuTarget\<lparr>panelTarget.refId := ''D''\<rparr>]"
  note t = timeSeriesQueries_one_per_target[of sampleReplace sampleDatasource ?options
      stackdriver world0]
  have f: "filter (\<lambda>t. \<not> hide t \<and> panelTarget.metricType t \<noteq> []) (targets ?options) =
      [cpuTarget, cpuTarget\<lparr>panelTarget.refId := ''D''\<rparr>]"
    by (simp add: sampleOptions_def cpuTarget_def)
  have 1: "map timeSeriesQuery.refId (timeSeriesQueries sampleReplace sampleDatasource ?options) =
      [''A'', ''D'']"
    using t[THEN conjunct2, THEN conjunct1] unfolding f by (simp add: cpuTarget_def)
  have 2: "length (timeSeriesQueries sampleReplace sampleDatasource ?options) = 2"
    using t[THEN conjunct1] unfolding f by simp
  show ?thesis using 1 2 by simp
qed

lemma query_no_queries:
  assumes "timeSeriesQueries replace this options = []"
  shows "getTimeSeries srv replace this options w =
           (Inr \<lparr>results = Some [], metricDescriptors = None\<rparr>, w)"
    and "query units srv replace this options w = (Inr \<lparr>queryOutput.data = []\<rparr>, w)"
proof -
  show g: "getTimeSeries srv replace this options w =
           (Inr \<lparr>results = Some [], metricDescriptors = None\<rparr>, w)"
    using assms by (simp add: getTimeSeries_def)
  then show "query units srv replace this options w = (Inr \<lparr>queryOutput.data = []\<rparr>, w)"
    by (simp add: query_def)
qed

text \<open>
  Claim C3. When the target list is empty, or every target is hidden or has an empty metric
  type, \<open>getTimeSeries\<close> returns \<open>{results: []}\<close> and \<open>query\<close> returns no series, and
  neither touches the world: no request is issued.
\<close>

theorem getTimeSeries_no_queries:
  assumes "\<forall>t \<in> set (targets options). hide t \<or> panelTarget.metricType t = []"
  shows "getTimeSeries srv replace this options w =
           (Inr \<lparr>results = Some [], metricDescriptors = None\<rparr>, w)
         \<and> query units srv replace this options w = (Inr \<lparr>queryOutput.data = []\<rparr>, w)"
proof -
  have "timeSeriesQueries replace this options = []"
    using assms by (simp add: timeSeriesQueries_empty_iff)
  then have g: "getTimeSeries srv replace this options w =
           (Inr \<lparr>results = Some [], metricDescriptors = None\<rparr>, w)"
    by (simp add: getTimeSeries_def)
  then show ?thesis by (simp add: query_def)
qed

text \<open>
  Claim C3 on a hidden target followed by one without metric type, and on no target.
\<close>

theorem getTimeSeries_no_queries_witness:
  "getTimeSeries stackdriver sampleReplace sampleDatasource
       (sampleOptions [cpuTarget\<lparr>hide := True\<rparr>, cpuTarget\<lparr>panelTarget.metricType := []\<rparr>]) world0 =
     (Inr \<lparr>results = Some [], metricDescriptors = None\<rparr>, world0)
   \<and> query sampleUnits stackdriver sampleReplace sampleDatasource
       (sampleOptions [cpuTarget\<lparr>hide := True\<rparr>, cpuTarget\<lparr>panelTarget.metricType := []\<rparr>]) world0 =
     (Inr \<lparr>queryOutput.data = []\<rparr>, world0)
   \<and> query sampleUnits stackdriver sampleReplace sampleDatasource (sampleOptions []) world0 =
     (Inr \<lparr>queryOutput.data = []\<rparr>, world0)"
proof -
  note t1 = getTimeSeries_no_queries[of
      "sampleOptions [cpuTarget\<lparr>hide := True\<rparr>, cpuTarget\<lparr>panelTarget.metricType := []\<rparr>]"
      stackdriver sampleReplace sampleDatasource world0 sampleUnits]
  note t2 = getTimeSeries_no_queries[of "sampleOptions []"
      stackdriver sampleReplace sampleDatasource world0 sampleUnits]
  show ?thesis using t1 t2 by (simp add: sampleOptions_def)
qed

section \<open>Properties of the response normalizer\<close>

lemma timeSerie_unit:
  "normalizedSeries.unit (timeSerie u qr s) =
     (case u of None \<Rightarrow> None | Some v \<Rightarrow> if v \<noteq> [] then Some v else None)"
  by (simp add: timeSerie_def Let_def split: option.splits)

lemma foldl_push: "foldl (\<lambda>result s. result @ [f s]) acc ss = acc @ map f ss"
  by (induction ss arbitrary: acc) simp_all

lemma normalize_fold:
  "foldl (\<lambda>result queryRes.
            case queryResult.series queryRes of
              None \<Rightarrow> result
            | Some ss \<Rightarrow> (let u = r in foldl (\<lambda>result s. result @ [timeSerie u queryRes s]) result ss))
         acc qrs =
   acc @ concat (map (\<lambda>queryRes. case queryResult.series queryRes of
                                   None \<Rightarrow> []
                                 | Some ss \<Rightarrow> map (timeSerie r queryRes) ss) qrs)"
  by (induction qrs arbitrary: acc) (simp_all add: foldl_push split: option.splits)

lemma query_units:
  assumes "query units srv replace this options w = (Inr out, w')"
    and "s \<in> set (queryOutput.data out)"
  shows "normalizedSeries.unit s =
     (case resolvePanelUnitFromTargets units (targets options) of
        None \<Rightarrow> None | Some v \<Rightarrow> if v \<noteq> [] then Some v else None)"
proof -
  let ?F = "\<lambda>queryRes. case queryResult.series queryRes of
                          None \<Rightarrow> []
                        | Some ss \<Rightarrow>
                            map (timeSerie (resolvePanelUnitFromTargets units (targets options))
                                   queryRes) ss"
  obtain r w1 where g: "getTimeSeries srv replace this options w = (r, w1)"
    by (cases "getTimeSeries srv replace this options w") auto
  have "\<exists>qrs. queryOutput.data out = concat (map ?F qrs)"
  proof (cases r)
    case (Inl e)
    then show ?thesis using assms(1) g by (simp add: query_def)
  next
    case (Inr d)
    show ?thesis
    proof (cases "results d")
      case None
      then have "queryOutput.data out = concat (map ?F [])"
        using assms(1) g Inr by (auto simp: query_def)
      then show ?thesis by blast
    next
      case (Some rs)
      then have "queryOutput.data out = concat (map ?F (map snd rs))"
        using assms(1) g Inr by (auto simp: query_def normalize_fold)
      then show ?thesis by blast
    qed
  qed
  then obtain qrs where "queryOutput.data out = concat (map ?F qrs)" by blast
  with assms(2) obtain qr ss s0 where
    "s = timeSerie (resolvePanelUnitFromTargets units (targets options)) qr s0"
    by (auto split: option.splits)
  then show ?thesis by (simp add: timeSerie_unit)
qed

lemma resolve_same:
  assumes "ts \<noteq> []" "\<forall>t \<in> set ts. panelTarget.unit t = u"
  shows "resolvePanelUnitFromTargets units ts = map_of units (propertyKey u)"
proof -
  have "ts ! 0 \<in> set ts" using assms(1) by simp
  then have "panelTarget.unit (ts ! 0) = u" using assms(2) by blast
  moreover have "list_all (\<lambda>t. panelTarget.unit t = u) ts"
    using assms(2) by (simp add: list_all_iff)
  ultimately show ?thesis
    using assms(1)
    by (auto simp: resolvePanelUnitFromTargets_def map_of_eq_None_iff[symmetric])
qed

lemma resolve_differ:
  assumes "t1 \<in> set ts" "t2 \<in> set ts" "panelTarget.unit t1 \<noteq> panelTarget.unit t2"
  shows "resolvePanelUnitFromTargets units ts = None"
proof -
  have "\<exists>t \<in> set ts. panelTarget.unit t \<noteq> panelTarget.unit (ts ! 0)"
  proof (cases "panelTarget.unit t1 = panelTarget.unit (ts ! 0)")
    case True
    then have "panelTarget.unit t2 \<noteq> panelTarget.unit (ts ! 0)" using assms(3) by simp
    then show ?thesis using assms(2) by blast
  next
    case False
    then show ?thesis using assms(1) by blast
  qed
  then have "\<not> list_all (\<lambda>t. panelTarget.unit t = panelTarget.unit (ts ! 0)) ts"
    by (simp add: list_all_iff)
  then show ?thesis by (simp add: resolvePanelUnitFromTargets_def)
qed

text \<open>
  Claim C5. Let \<open>query\<close> return its series. When all targets have the same \<open>unit\<close> and the
  unit table maps it to a display unit \<open>U\<close> (a non-empty string: the normalizer tests the
  unit for truthiness), every series carries \<open>U\<close>. When two targets differ in their
  \<open>unit\<close>, or the shared unit is not in the table, no series carries a unit.
\<close>

theorem query_unit_resolution:
  "query units srv replace this options w = (Inr out, w')
   \<longrightarrow> ((\<forall>t \<in> set (targets options). panelTarget.unit t = u)
          \<and> map_of units (propertyKey u) = Some U \<and> U \<noteq> []
        \<longrightarrow> (\<forall>s \<in> set (queryOutput.data out). normalizedSeries.unit s = Some U))
     \<and> ((\<exists>t1 \<in> set (targets options). \<exists>t2 \<in> set (targets options).
            panelTarget.unit t1 \<noteq> panelTarget.unit t2)
          \<or> ((\<forall>t \<in> set (targets options). panelTarget.unit t = u)
              \<and> map_of units (propertyKey u) = None)
        \<longrightarrow> (\<forall>s \<in> set (queryOutput.data out). normalizedSeries.unit s = None))"
proof (intro impI conjI ballI)
  fix s
  assume q: "query units srv replace this options w = (Inr out, w')"
    and s: "s \<in> set (queryOutput.data out)"
  have ne: "targets options \<noteq> []"
  proof
    assume "targets options = []"
    then have "timeSeriesQueries replace this options = []"
      by (simp add: timeSeriesQueries_def)
    from query_no_queries(2)[OF this, of units srv w] q s show False by simp
  qed
  {
    assume "(\<forall>t \<in> set (targets options). panelTarget.unit t = u)
          \<and> map_of units (propertyKey u) = Some U \<and> U \<noteq> []"
    then show "normalizedSeries.unit s = Some U"
      using query_units[OF q s] resolve_same[OF ne, of u units] by simp
  }
  {
    assume "(\<exists>t1 \<in> set (targets options). \<exists>t2 \<in> set (targets options).
            panelTarget.unit t1 \<noteq> panelTarget.unit t2)
          \<or> ((\<forall>t \<in> set (targets options). panelTarget.unit t = u)
              \<and> map_of units (propertyKey u) = None)"
    then show "normalizedSeries.unit s = None"
      using query_units[OF q s] resolve_same[OF ne, of u units] resolve_differ[of _ "targets options" _ units]
      by auto
  }
qed

text \<open>
  Claim C5 on the sample backend, whose answer has two series: two targets in bytes, two
  targets of different units, and one target of a unit the table does not know.
\<close>

theorem query_unit_resolution_witness:
  "map normalizedSeries.unit
      (queryOutput.data (projr (fst (query sampleUnits stackdriver sampleReplace sampleDatasource
          (sampleOptions [cpuTarget, cpuTarget\<lparr>hide := True\<rparr>]) world0)))) =
     [Some ''bytes'', Some ''bytes'']
   \<and> map normalizedSeries.unit
      (queryOutput.data (projr (fst (query sampleUnits stackdriver sampleReplace sampleDatasource
          (sampleOptions [cpuTarget, cpuTarget\<lparr>panelTarget.unit := Some ''s''\<rparr>]) world0)))) =
     [None, None]
   \<and> map normalizedSeries.unit
      (queryOutput.data (projr (fst (query sampleUnits stackdriver sampleReplace sampleDatasource
          (sampleOptions [cpuTarget\<lparr>panelTarget.unit := Some ''furlong''\<rparr>]) world0)))) =
     [None, None]"
proof -
  let ?same = "sampleOptions [cpuTarget, cpuTarget\<lparr>hide := True\<rparr>]"
  let ?differ = "sampleOptions [cpuTarget, cpuTarget\<lparr>panelTarget.unit := Some ''s''\<rparr>]"
  let ?unknown = "sampleOptions [cpuTarget\<lparr>panelTarget.unit := Some ''furlong''\<rparr>]"
  let ?q = "\<lambda>options. query sampleUnits stackdriver sampleReplace sampleDatasource options world0"
  have "\<exists>out w. ?q ?same = (Inr out, w) \<and> length (queryOutput.data out) = 2"
    by (simp add: query_def getTimeSeries_def timeSeriesQueries_def datasourceRequest_def
          stackdriver_def sampleResults_def sampleOptions_def cpuTarget_def world0_def
          tsdbRequest_def Let_def)
  then obtain o1 w1 where q1: "?q ?same = (Inr o1, w1)" and l1: "length (queryOutput.data o1) = 2"
    by blast
  have "\<exists>out w. ?q ?differ = (Inr out, w) \<and> length (queryOutput.data out) = 2"
    by (simp add: query_def getTimeSeries_def timeSeriesQueries_def datasourceRequest_def
          stackdriver_def sampleResults_def sampleOptions_def cpuTarget_def world0_def
          tsdbRequest_def Let_def)
  then obtain o2 w2 where q2: "?q ?differ = (Inr o2, w2)" and l2: "length (queryOutput.data o2) = 2"
    by blast
  have "\<exists>out w. ?q ?unknown = (Inr out, w) \<and> length (queryOutput.data out) = 2"
    by (simp add: query_def getTimeSeries_def timeSeriesQueries_def datasourceRequest_def
          stackdriver_def sampleResults_def sampleOptions_def cpuTarget_def world0_def
          tsdbRequest_def Let_def)
  then obtain o3 w3 where q3: "?q ?unknown = (Inr o3, w3)" and l3: "length (queryOutput.data o3) = 2"
    by blast
  note t1 = query_unit_resolution[of sampleUnits stackdriver sampleReplace sampleDatasource
      ?same world0 o1 w1 "Some ''By''" "''bytes''"]
  note t2 = query_unit_resolution[of sampleUnits stackdriver sampleReplace sampleDatasource
      ?differ world0 o2 w2 None "[]"]
  note t3 = query_unit_resolution[of sampleUnits stackdriver sampleReplace sampleDatasource
      ?unknown world0 o3 w3 "Some ''furlong''" "[]"]
  have u1: "\<forall>s \<in> set (queryOutput.data o1). normalizedSeries.unit s = Some ''bytes''"
    using t1 q1 by (simp add: sampleOptions_def cpuTarget_def sampleUnits_def propertyKey_def)
  have "cpuTarget \<in> set (targets ?differ)"
    "cpuTarget\<lparr>panelTarget.unit := Some ''s''\<rparr> \<in> set (targets ?differ)"
    "panelTarget.unit cpuTarget \<noteq> panelTarget.unit (cpuTarget\<lparr>panelTarget.unit := Some ''s''\<rparr>)"
    by (simp_all add: sampleOptions_def cpuTarget_def)
  then have h2: "\<exists>t1 \<in> set (targets ?differ). \<exists>t2 \<in> set (targets ?differ).
      panelTarget.unit t1 \<noteq> panelTarget.unit t2"
    by blast
  have u2: "\<forall>s \<in> set (queryOutput.data o2). normalizedSeries.unit s = None"
    using t2 q2 h2 by blast
  have h3: "(\<forall>t \<in> set (targets ?unknown). panelTarget.unit t = Some ''furlong'')
      \<and> map_of sampleUnits (propertyKey (Some ''furlong'')) = None"
    by (simp add: sampleOptions_def cpuTarget_def sampleUnits_def propertyKey_def)
  have u3: "\<forall>s \<in> set (queryOutput.data o3). normalizedSeries.unit s = None"
    using t3 q3 h3 by blast
  have m: "length xs = n \<Longrightarrow> \<forall>x \<in> set xs. f x = v \<Longrightarrow> map f xs = replicate n v" for xs :: "normalizedSeries list" and n f and v :: "string option"
    by (induction xs arbitrary: n) auto
  show ?thesis
    using m[OF l1 u1] m[OF l2 u2] m[OF l3 u3] q1 q2 q3
    by (simp add: numeral_2_eq_2 numeral_Bit0)
qed

section \<open>Properties of the resource fetch\<close>

lemma doRequest_step:
  "doRequest srv this path n w =
     (case srv (backend w) (getRequest this path) of
        (Inr resp, b') \<Rightarrow>
          (Inr resp, w\<lparr>backend := b', requests := requests w @ [getRequest this path]\<rparr>)
      | (Inl error, b') \<Rightarrow>
          if n > 0 then
            doRequest srv this path (n - 1)
              (w\<lparr>backend := b', requests := requests w @ [getRequest this path]\<rparr>)
          else (Inl error, w\<lparr>backend := b', requests := requests w @ [getRequest this path]\<rparr>))"
  by (subst doRequest.simps)
     (simp add: datasourceRequest_def getRequest_def split: prod.splits sum.splits)

lemma doRequest_attempts:
  "\<exists>k. 1 \<le> k \<and> k \<le> nat n + 1 \<and>
       requests (snd (doRequest srv this path n w)) =
         requests w @ replicate k (getRequest this path)"
proof (induction srv this path n w rule: doRequest.induct)
  case (1 srv this path n w)
  let ?req = "getRequest this path"
  obtain r b' where s: "srv (backend w) ?req = (r, b')" by (cases "srv (backend w) ?req")
  let ?w' = "w\<lparr>backend := b', requests := requests w @ [?req]\<rparr>"
  show ?case
  proof (cases r)
    case (Inr resp)
    then have "doRequest srv this path n w = (Inr resp, ?w')"
      using s by (subst doRequest_step) simp
    then have "requests (snd (doRequest srv this path n w)) = requests w @ replicate 1 ?req"
      by simp
    then show ?thesis by (intro exI[of _ 1]) simp
  next
    case (Inl e)
    show ?thesis
    proof (cases "n > 0")
      case False
      then have "doRequest srv this path n w = (Inl e, ?w')"
        using s Inl by (subst doRequest_step) simp
      then have "requests (snd (doRequest srv this path n w)) = requests w @ replicate 1 ?req"
        by simp
      then show ?thesis by (intro exI[of _ 1]) simp
    next
      case True
      have d: "datasourceRequest srv
                 \<lparr>request.url = datasource.url this @ path, request.method = ''GET'',
                    request.data = None\<rparr> w = (Inl e, ?w')"
        using s Inl by (simp add: datasourceRequest_def getRequest_def)
      from "1.IH"[OF d[symmetric] refl True]
      obtain k where k: "1 \<le> k" "k \<le> nat (n - 1) + 1"
        "requests (snd (doRequest srv this path (n - 1) ?w')) =
           requests ?w' @ replicate k ?req"
        by blast
      have "doRequest srv this path n w = doRequest srv this path (n - 1) ?w'"
        using s Inl True by (subst doRequest_step) simp
      then have "requests (snd (doRequest srv this path n w)) =
          requests w @ replicate (Suc k) ?req"
        using k(3) by simp
      moreover have "Suc k \<le> nat n + 1" using k(2) True by auto
      ultimately show ?thesis by (intro exI[of _ "Suc k"]) simp
    qed
  qed
qed

lemma doRequest_all_rejected:
  assumes rej: "\<forall>b. isl (fst (srv b (getRequest this path)))"
  shows "k = nat n \<Longrightarrow> 0 \<le> n \<Longrightarrow>
    doRequest srv this path n w =
      (fst (srv ((nextBackend srv (getRequest this path) ^^ k) (backend w))
              (getRequest this path)),
       w\<lparr>backend := (nextBackend srv (getRequest this path) ^^ Suc k) (backend w),
          requests := requests w @ replicate (Suc k) (getRequest this path)\<rparr>)"
proof (induction k arbitrary: n w)
  case 0
  then have n: "n = 0" by simp
  obtain e b' where s: "srv (backend w) (getRequest this path) = (Inl e, b')"
    using rej by (metis isl_def prod.collapse)
  show ?case
    by (subst doRequest_step) (simp add: s n nextBackend_def)
next
  case (Suc k)
  then have n: "n > 0" "k = nat (n - 1)" "0 \<le> n - 1" by auto
  obtain e b' where s: "srv (backend w) (getRequest this path) = (Inl e, b')"
    using rej by (metis isl_def prod.collapse)
  then have b': "nextBackend srv (getRequest this path) (backend w) = b'"
    by (simp add: nextBackend_def)
  let ?w' = "w\<lparr>backend := b', requests := requests w @ [getRequest this path]\<rparr>"
  have "doRequest srv this path n w = doRequest srv this path (n - 1) ?w'"
    using n(1) by (subst doRequest_step) (simp add: s)
  also have "\<dots> =
      (fst (srv ((nextBackend srv (getRequest this path) ^^ k) (backend ?w'))
              (getRequest this path)),
       ?w'\<lparr>backend := (nextBackend srv (getRequest this path) ^^ Suc k) (backend ?w'),
          requests := requests ?w' @ replicate (Suc k) (getRequest this path)\<rparr>)"
    by (rule Suc.IH[OF n(2) n(3)])
  finally show ?case
    by (simp add: funpow_swap1 b' replicate_append_same)
qed


text \<open>
  Claim C6. With one retry, a transport that rejects the first GET and resolves the second
  gives the response of the second; a transport that rejects every GET is asked exactly
  twice, for the same request, and the rejection of the second attempt is what
  \<open>doRequest\<close> rejects with. With \<open>n\<close> retries a transport that always rejects is asked
  \<open>n + 1\<close> times and the last rejection is propagated; whatever the transport does, the
  same request is issued at least once and at most \<open>n + 1\<close> times.
\<close>

theorem doRequest_retries:
  "(srv (backend w) (getRequest this path) = (Inl e, b1)
      \<and> srv b1 (getRequest this path) = (Inr resp, b2)
    \<longrightarrow> doRequest srv this path 1 w =
          (Inr resp,
           w\<lparr>backend := b2,
              requests := requests w @ [getRequest this path, getRequest this path]\<rparr>))
   \<and> ((\<forall>b. isl (fst (srv b (getRequest this path))))
    \<longrightarrow> requests (snd (doRequest srv this path 1 w)) =
            requests w @ [getRequest this path, getRequest this path]
        \<and> fst (doRequest srv this path 1 w) =
            fst (srv (nextBackend srv (getRequest this path) (backend w)) (getRequest this path)))
   \<and> (0 \<le> n \<and> (\<forall>b. isl (fst (srv b (getRequest this path))))
    \<longrightarrow> requests (snd (doRequest srv this path n w)) =
            requests w @ replicate (nat n + 1) (getRequest this path)
        \<and> fst (doRequest srv this path n w) =
            fst (srv ((nextBackend srv (getRequest this path) ^^ nat n) (backend w))
                   (getRequest this path)))
   \<and> (\<exists>k. 1 \<le> k \<and> k \<le> nat n + 1 \<and>
          requests (snd (doRequest srv this path n w)) =
            requests w @ replicate k (getRequest this path))"
proof (intro conjI impI)
  assume a: "srv (backend w) (getRequest this path) = (Inl e, b1)
      \<and> srv b1 (getRequest this path) = (Inr resp, b2)"
  show "doRequest srv this path 1 w =
          (Inr resp,
           w\<lparr>backend := b2,
              requests := requests w @ [getRequest this path, getRequest this path]\<rparr>)"
    using a by (subst doRequest_step, simp, subst doRequest_step, simp)
next
  assume r: "\<forall>b. isl (fst (srv b (getRequest this path)))"
  note t = doRequest_all_rejected[where srv=srv and this=this and path=path and k=1 and n=1 and w=w, OF r]
  from t show "requests (snd (doRequest srv this path 1 w)) =
            requests w @ [getRequest this path, getRequest this path]"
    by simp
  from t show "fst (doRequest srv this path 1 w) =
            fst (srv (nextBackend srv (getRequest this path) (backend w)) (getRequest this path))"
    by simp
next
  assume r: "0 \<le> n \<and> (\<forall>b. isl (fst (srv b (getRequest this path))))"
  then have r': "\<forall>b. isl (fst (srv b (getRequest this path)))" and n: "0 \<le> n" by auto
  note t = doRequest_all_rejected[where srv=srv and this=this and path=path and k="nat n" and n=n and w=w, OF r' refl n]
  from t show "requests (snd (doRequest srv this path n w)) =
            requests w @ replicate (nat n + 1) (getRequest this path)"
    by simp
  from t show "fst (doRequest srv this path n w) =
            fst (srv ((nextBackend srv (getRequest this path) ^^ nat n) (backend w))
                   (getRequest this path))"
    by simp
next
  show "\<exists>k. 1 \<le> k \<and> k \<le> nat n + 1 \<and>
          requests (snd (doRequest srv this path n w)) =
            requests w @ replicate k (getRequest this path)"
    by (rule doRequest_attempts)
qed

text \<open>
  Claim C6 on a transport that fails once and on one that always fails, with one and with
  three retries.
\<close>

theorem doRequest_retries_witness:
  "doRequest failsOnce sampleDatasource ''/stackdriver/v3/projects/p/metricDescriptors'' 1 world0 =
     (Inr okResponse,
      \<lparr>backend = 2,
       requests = replicate 2 (getRequest sampleDatasource ''/stackdriver/v3/projects/p/metricDescriptors''),
       events = []\<rparr>)
   \<and> requests (snd (doRequest alwaysFails sampleDatasource ''/stackdriver/v3/projects/p/metricDescriptors'' 1 world0)) =
       replicate 2 (getRequest sampleDatasource ''/stackdriver/v3/projects/p/metricDescriptors'')
   \<and> fst (doRequest alwaysFails sampleDatasource ''/stackdriver/v3/projects/p/metricDescriptors'' 1 world0) =
       Inl (failure 1)
   \<and> length (requests (snd (doRequest alwaysFails sampleDatasource ''/x'' 3 world0))) = 4
   \<and> fst (doRequest alwaysFails sampleDatasource ''/x'' 3 world0) = Inl (failure 3)"
proof -
  let ?p = "''/stackdriver/v3/projects/p/metricDescriptors''"
  have a: "failsOnce (backend world0) (getRequest sampleDatasource ?p) = (Inl (failure 0), 1)
      \<and> failsOnce 1 (getRequest sampleDatasource ?p) = (Inr okResponse, 2)"
    by (simp add: failsOnce_def world0_def)
  have r: "\<forall>b. isl (fst (alwaysFails b (getRequest sampleDatasource p)))" for p
    by (simp add: alwaysFails_def)
  have f: "(nextBackend alwaysFails q ^^ k) b0 = b0 + k" for q k b0
    by (induction k) (simp_all add: alwaysFails_def nextBackend_def)
  note t1 = doRequest_retries[of failsOnce world0 sampleDatasource ?p "failure 0" 1 okResponse 2 0]
  note t2 = doRequest_retries[of alwaysFails world0 sampleDatasource ?p _ _ _ _ 1]
  note t3 = doRequest_retries[of alwaysFails world0 sampleDatasource "''/x''" _ _ _ _ 3]
  have 1: "doRequest failsOnce sampleDatasource ?p 1 world0 =
     (Inr okResponse, \<lparr>backend = 2, requests = replicate 2 (getRequest sampleDatasource ?p), events = []\<rparr>)"
    using t1 a by (simp add: world0_def numeral_2_eq_2)
  have 2: "requests (snd (doRequest alwaysFails sampleDatasource ?p 1 world0)) =
             replicate 2 (getRequest sampleDatasource ?p)
        \<and> fst (doRequest alwaysFails sampleDatasource ?p 1 world0) = Inl (failure 1)"
    using t2 r[of ?p] by (simp add: world0_def numeral_2_eq_2 alwaysFails_def nextBackend_def)
  have 3: "length (requests (snd (doRequest alwaysFails sampleDatasource ''/x'' 3 world0))) = 4
        \<and> fst (doRequest alwaysFails sampleDatasource ''/x'' 3 world0) = Inl (failure 3)"
    using t3 r[of "''/x''"] by (simp add: world0_def f alwaysFails_def)
  show ?thesis using 1 2 3 by simp
qed

section \<open>Properties of the error formatter\<close>

lemma getField_total: "v \<noteq> JUndefined \<Longrightarrow> v \<noteq> JNull \<Longrightarrow> \<exists>x. getField v k = Inr x"
  by (cases v) simp_all

lemma getField_truthy: "truthy v \<Longrightarrow> \<exists>x. getField v k = Inr x"
  by (cases v) simp_all

lemma getField_Inl: "getField v k = Inl e \<longleftrightarrow> (v = JUndefined \<or> v = JNull) \<and> e = TypeError"
  by (cases v) auto

lemma toString_join_convertible:
  shows "(\<exists>s. toString v = Inr s) \<longleftrightarrow> convertible v"
    and "(\<exists>s. join xs = Inr s) \<longleftrightarrow> (\<forall>x \<in> set xs. convertible x)"
proof (induction v and xs rule: toString_join.induct)
  case (9 x xs)
  show ?case
  proof (cases "x = JUndefined \<or> x = JNull")
    case True
    then show ?thesis using 9 by (cases "join xs") auto
  next
    case False
    then show ?thesis using 9 by (cases "toString x"; cases "join xs") auto
  qed
qed simp_all

lemma toString_convertible: "(\<exists>s. toString v = Inr s) \<longleftrightarrow> convertible v"
  by (rule toString_join_convertible(1))

lemma toString_not_convertible: "\<not> convertible v \<Longrightarrow> \<exists>e. toString v = Inl e"
  using toString_convertible[of v] by (cases "toString v") auto

lemma statusPrefix_start: "statusPrefix st = Inr pre \<Longrightarrow> \<exists>s. pre = ''Stackdriver: '' @ s"
  by (auto simp: statusPrefix_def split: if_splits sum.splits)

lemma statusPrefix_convertible:
  "(\<exists>pre. statusPrefix st = Inr pre) \<longleftrightarrow> (truthy st \<longrightarrow> convertible st)"
  using toString_convertible[of st] by (auto simp: statusPrefix_def split: sum.splits)

lemma formatStackdriverError_core:
  assumes "error \<noteq> JUndefined" "error \<noteq> JNull"
  shows "formatStackdriverError parse error =
     (case statusPrefix (statusTextOf error) of
        Inl e \<Rightarrow> Inl e
      | Inr pre \<Rightarrow>
          if truthy (dataErrorOf error) then
            (case parsedErrorText parse (dataErrorOf error) of
               Inr txt \<Rightarrow> Inr (pre @ txt)
             | Inl err \<Rightarrow> stringPlus pre (dataErrorOf error))
          else Inr (pre @ ''Cannot connect to Stackdriver API''))"
proof -
  obtain st d where f: "getField error ''statusText'' = Inr st" "getField error ''data'' = Inr d"
    using assms getField_total by blast
  show ?thesis
  proof (cases "truthy d")
    case True
    then obtain de where "getField d ''error'' = Inr de" using getField_truthy by blast
    then show ?thesis using f True
      by (simp add: formatStackdriverError_def statusPrefix_def statusTextOf_def dataErrorOf_def
            plusString_def Let_def split: sum.splits)
  next
    case False
    then show ?thesis using f
      by (simp add: formatStackdriverError_def statusPrefix_def statusTextOf_def dataErrorOf_def
            plusString_def Let_def split: sum.splits)
  qed
qed

lemma formatStackdriverError_nullish:
  "error = JUndefined \<or> error = JNull \<Longrightarrow> formatStackdriverError parse error = Inl TypeError"
  by (auto simp: formatStackdriverError_def)

lemma formatStackdriverError_formattable:
  "(\<exists>s. formatStackdriverError parse error = Inr s) \<longleftrightarrow> formattable error"
proof (cases "error = JUndefined \<or> error = JNull")
  case True
  then show ?thesis
    using formatStackdriverError_nullish[of error parse] by (auto simp: formattable_def)
next
  case False
  then have n: "error \<noteq> JUndefined" "error \<noteq> JNull" by simp_all
  note c = formatStackdriverError_core[OF n, of parse]
  show ?thesis
  proof (cases "statusPrefix (statusTextOf error)")
    case (Inl e)
    then have "\<not> (truthy (statusTextOf error) \<longrightarrow> convertible (statusTextOf error))"
      using statusPrefix_convertible[of "statusTextOf error"] by auto
    then show ?thesis using c Inl by (auto simp: formattable_def)
  next
    case (Inr pre)
    then have s: "truthy (statusTextOf error) \<longrightarrow> convertible (statusTextOf error)"
      using statusPrefix_convertible[of "statusTextOf error"] by auto
    show ?thesis
    proof (cases "truthy (dataErrorOf error)")
      case False
      then show ?thesis using c Inr s n by (simp add: formattable_def)
    next
      case True
      show ?thesis
      proof (cases "convertible (dataErrorOf error)")
        case True
        then obtain raw where "toString (dataErrorOf error) = Inr raw"
          using toString_convertible by blast
        then show ?thesis using c Inr s n True \<open>truthy (dataErrorOf error)\<close>
          by (auto simp: formattable_def stringPlus_def split: sum.splits)
      next
        case False
        then obtain e where e: "toString (dataErrorOf error) = Inl e"
          using toString_not_convertible by blast
        then have "parsedErrorText parse (dataErrorOf error) = Inl e"
          by (simp add: parsedErrorText_def)
        then show ?thesis using c Inr e False \<open>truthy (dataErrorOf error)\<close>
          by (auto simp: formattable_def stringPlus_def)
      qed
    qed
  qed
qed

lemma formatStackdriverError_start:
  assumes "formatStackdriverError parse error = Inr s"
  shows "\<exists>r. s = ''Stackdriver: '' @ r"
proof -
  have n: "error \<noteq> JUndefined" "error \<noteq> JNull"
    using assms formatStackdriverError_nullish[of error parse] by auto
  show ?thesis
    using assms formatStackdriverError_core[OF n, of parse]
      statusPrefix_start[of "statusTextOf error"]
    by (auto simp: stringPlus_def split: sum.splits if_splits)
qed

lemma parsedErrorText_read:
  assumes "toString dataError = Inr raw" "parse raw = Some res"
    "getField res ''error'' = Inr resError"
    "getField resError ''code'' = Inr code" "getField resError ''message'' = Inr msg"
    "toString code = Inr c" "toString msg = Inr m"
  shows "parsedErrorText parse dataError = Inr (c @ ''. '' @ m)"
  using assms by (simp add: parsedErrorText_def plusString_def stringPlus_def)

lemma parsedErrorText_thrown:
  assumes "toString dataError = Inr raw"
    and "parse raw = None
     \<or> (\<exists>res. parse raw = Some res
           \<and> (res = JUndefined \<or> res = JNull
               \<or> getField res ''error'' = Inr JUndefined \<or> getField res ''error'' = Inr JNull))
     \<or> (\<exists>res resError code msg. parse raw = Some res
           \<and> getField res ''error'' = Inr resError
           \<and> getField resError ''code'' = Inr code \<and> getField resError ''message'' = Inr msg
           \<and> (\<not> convertible code \<or> \<not> convertible msg))"
  shows "\<exists>e. parsedErrorText parse dataError = Inl e"
  using assms(2)
proof (elim disjE exE conjE)
  assume "parse raw = None"
  then show ?thesis using assms(1) by (simp add: parsedErrorText_def)
next
  fix res assume "parse raw = Some res" "res = JUndefined"
  then show ?thesis using assms(1) by (simp add: parsedErrorText_def)
next
  fix res assume "parse raw = Some res" "res = JNull"
  then show ?thesis using assms(1) by (simp add: parsedErrorText_def)
next
  fix res assume "parse raw = Some res" "getField res ''error'' = Inr JUndefined"
  then show ?thesis using assms(1) by (simp add: parsedErrorText_def)
next
  fix res assume "parse raw = Some res" "getField res ''error'' = Inr JNull"
  then show ?thesis using assms(1) by (simp add: parsedErrorText_def)
next
  fix res resError code msg
  assume p: "parse raw = Some res" "getField res ''error'' = Inr resError"
    "getField resError ''code'' = Inr code" "getField resError ''message'' = Inr msg"
    and "\<not> convertible code"
  then obtain e where "toString code = Inl e" using toString_not_convertible by blast
  then show ?thesis using assms(1) p by (simp add: parsedErrorText_def plusString_def)
next
  fix res resError code msg
  assume p: "parse raw = Some res" "getField res ''error'' = Inr resError"
    "getField resError ''code'' = Inr code" "getField resError ''message'' = Inr msg"
    and "\<not> convertible msg"
  then obtain e where "toString msg = Inl e" using toString_not_convertible by blast
  then show ?thesis using assms(1) p
    by (cases "toString code") (simp_all add: parsedErrorText_def plusString_def stringPlus_def)
qed





lemma readJSON_emptyError: "readJSON emptyErrorText = Some (JObj [(''error'', JObj [])])"
  unfolding emptyErrorText_def by code_simp

lemma readJSON_garbage: "readJSON ''Bad Gateway'' = None"
  by code_simp


lemma readJSON_unprintableCode:
  "readJSON unprintableCodeText =
     Some (JObj [(''error'', JObj [(''code'', JObj [(''toString'', JNum 1)]), (''message'', JStr ''m'')])])"
  unfolding unprintableCodeText_def by code_simp




text \<open>
  Claim C8, as stated, fails: the formatter throws a \<open>TypeError\<close> on \<open>undefined\<close> and on
  \<open>null\<close>, and on an error whose status text or \<open>data.error\<close> is an object with an own
  \<open>toString\<close> property; and a parsed payload whose \<open>error\<close> member has neither code nor
  message contributes \<open>undefined. undefined\<close>, not the raw string.
\<close>

theorem formatStackdriverError_raises_counterexample:
  "formatStackdriverError readJSON JUndefined = Inl TypeError
   \<and> formatStackdriverError readJSON JNull = Inl TypeError
   \<and> formatStackdriverError readJSON emptyError = Inr ''Stackdriver: undefined. undefined''
   \<and> formatStackdriverError readJSON (JObj [(''statusText'', ownToString)]) = Inl TypeError
   \<and> formatStackdriverError readJSON (JObj [(''data'', JObj [(''error'', ownToString)])]) =
       Inl TypeError"
proof -
  have e: "emptyErrorText \<noteq> []" by (simp add: emptyErrorText_def)
  have p: "parsedErrorText readJSON (JStr emptyErrorText) = Inr ''undefined. undefined''"
    by (simp add: parsedErrorText_def readJSON_emptyError plusString_def stringPlus_def)
  have 3: "formatStackdriverError readJSON emptyError = Inr ''Stackdriver: undefined. undefined''"
    by (simp add: formatStackdriverError_def emptyError_def e p)
  have 4: "formatStackdriverError readJSON (JObj [(''statusText'', ownToString)]) = Inl TypeError"
    by (simp add: formatStackdriverError_def ownToString_def plusString_def)
  have 5: "formatStackdriverError readJSON (JObj [(''data'', JObj [(''error'', ownToString)])]) =
       Inl TypeError"
    by (simp add: formatStackdriverError_def ownToString_def parsedErrorText_def stringPlus_def)
  show ?thesis
    using 3 4 5 by (simp add: formatStackdriverError_def)
qed

text \<open>
  Claim C8, amended. For every error value that is neither \<open>null\<close> nor \<open>undefined\<close> and
  whose status text and \<open>data.error\<close>, where truthy, can be converted to strings, the
  formatter returns a string that starts with \<open>Stackdriver: \<close>. For such an error with a
  truthy \<open>data.error\<close>: when \<open>JSON.parse\<close> fails, or the parsed value is \<open>null\<close> or has no
  \<open>error\<close> member other than \<open>null\<close>, or the code or the message of that member cannot be
  converted to a string (so that the \<open>try\<close> block throws), the raw \<open>data.error\<close> is
  appended; any other parsed value contributes the code and the message read from its
  \<open>error\<close> member.
\<close>

theorem formatStackdriverError_tolerant:
  "(formattable error
      \<longrightarrow> (\<exists>s. formatStackdriverError parse error = Inr (''Stackdriver: '' @ s)))
   \<and> (formattable error \<and> truthy (dataErrorOf error)
        \<and> statusPrefix (statusTextOf error) = Inr pre
        \<and> toString (dataErrorOf error) = Inr raw
      \<longrightarrow> ((parse raw = None
             \<or> (\<exists>res. parse raw = Some res
                   \<and> (res = JUndefined \<or> res = JNull
                       \<or> getField res ''error'' = Inr JUndefined
                       \<or> getField res ''error'' = Inr JNull))
             \<or> (\<exists>res resError code msg. parse raw = Some res
                   \<and> getField res ''error'' = Inr resError
                   \<and> getField resError ''code'' = Inr code
                   \<and> getField resError ''message'' = Inr msg
                   \<and> (\<not> convertible code \<or> \<not> convertible msg)))
            \<longrightarrow> formatStackdriverError parse error = Inr (pre @ raw))
        \<and> (parse raw = Some res \<and> getField res ''error'' = Inr resError
             \<and> getField resError ''code'' = Inr code \<and> getField resError ''message'' = Inr msg
             \<and> toString code = Inr c \<and> toString msg = Inr m
            \<longrightarrow> formatStackdriverError parse error = Inr (pre @ c @ ''. '' @ m)))"
proof (intro conjI impI)
  assume f: "formattable error"
  then obtain s where s: "formatStackdriverError parse error = Inr s"
    using formatStackdriverError_formattable[of parse error] by blast
  then obtain r where "s = ''Stackdriver: '' @ r"
    using formatStackdriverError_start by blast
  then show "\<exists>s. formatStackdriverError parse error = Inr (''Stackdriver: '' @ s)"
    using s by blast
next
  assume a: "formattable error \<and> truthy (dataErrorOf error)
        \<and> statusPrefix (statusTextOf error) = Inr pre
        \<and> toString (dataErrorOf error) = Inr raw"
  then have n: "error \<noteq> JUndefined" "error \<noteq> JNull" by (simp_all add: formattable_def)
  have c: "formatStackdriverError parse error =
      (case parsedErrorText parse (dataErrorOf error) of
         Inr txt \<Rightarrow> Inr (pre @ txt)
       | Inl err \<Rightarrow> Inr (pre @ raw))"
    using formatStackdriverError_core[OF n, of parse] a
    by (simp add: stringPlus_def split: sum.splits)
  {
    assume "parse raw = None
             \<or> (\<exists>res. parse raw = Some res
                   \<and> (res = JUndefined \<or> res = JNull
                       \<or> getField res ''error'' = Inr JUndefined
                       \<or> getField res ''error'' = Inr JNull))
             \<or> (\<exists>res resError code msg. parse raw = Some res
                   \<and> getField res ''error'' = Inr resError
                   \<and> getField resError ''code'' = Inr code
                   \<and> getField resError ''message'' = Inr msg
                   \<and> (\<not> convertible code \<or> \<not> convertible msg))"
    then obtain e where "parsedErrorText parse (dataErrorOf error) = Inl e"
      using parsedErrorText_thrown[of "dataErrorOf error" raw parse] a by blast
    then show "formatStackdriverError parse error = Inr (pre @ raw)"
      using c by simp
  }
  {
    assume h: "parse raw = Some res \<and> getField res ''error'' = Inr resError
             \<and> getField resError ''code'' = Inr code \<and> getField resError ''message'' = Inr msg
             \<and> toString code = Inr c \<and> toString msg = Inr m"
    have "parsedErrorText parse (dataErrorOf error) = Inr (c @ ''. '' @ m)"
      using h a by (intro parsedErrorText_read[where raw=raw and res=res and resError=resError
            and code=code and msg=msg]) simp_all
    then show "formatStackdriverError parse error = Inr (pre @ c @ ''. '' @ m)"
      using c by simp
  }
qed

text \<open>
  Claim C8, amended, on a payload that is not JSON, on a payload whose code cannot be
  converted, on a payload with an empty \<open>error\<close> object and on a number as the error.
\<close>

theorem formatStackdriverError_tolerant_witness:
  "formatStackdriverError readJSON
       (JObj [(''statusText'', JStr ''Error''), (''data'', JObj [(''error'', JStr ''Bad Gateway'')])]) =
     Inr ''Stackdriver: Error: Bad Gateway''
   \<and> formatStackdriverError readJSON unprintableCodeError =
     Inr (''Stackdriver: '' @ unprintableCodeText)
   \<and> formatStackdriverError readJSON emptyError = Inr ''Stackdriver: undefined. undefined''
   \<and> \<not> isl (formatStackdriverError readJSON (JNum 500))"
proof -
  let ?bad = "JObj [(''statusText'', JStr ''Error''), (''data'', JObj [(''error'', JStr ''Bad Gateway'')])]"
  have e: "emptyErrorText \<noteq> []" by (simp add: emptyErrorText_def)
  have u: "unprintableCodeText \<noteq> []" by (simp add: unprintableCodeText_def)
  have f1: "formattable ?bad \<and> truthy (dataErrorOf ?bad)
      \<and> statusPrefix (statusTextOf ?bad) = Inr ''Stackdriver: Error: ''
      \<and> toString (dataErrorOf ?bad) = Inr ''Bad Gateway''"
    by (simp add: formattable_def statusTextOf_def dataErrorOf_def statusPrefix_def)
  have f2: "formattable unprintableCodeError \<and> truthy (dataErrorOf unprintableCodeError)
      \<and> statusPrefix (statusTextOf unprintableCodeError) = Inr ''Stackdriver: ''
      \<and> toString (dataErrorOf unprintableCodeError) = Inr unprintableCodeText"
    by (simp add: formattable_def statusTextOf_def dataErrorOf_def statusPrefix_def
          unprintableCodeError_def u)
  have f3: "formattable emptyError \<and> truthy (dataErrorOf emptyError)
      \<and> statusPrefix (statusTextOf emptyError) = Inr ''Stackdriver: ''
      \<and> toString (dataErrorOf emptyError) = Inr emptyErrorText"
    by (simp add: formattable_def statusTextOf_def dataErrorOf_def statusPrefix_def
          emptyError_def e)
  have f4: "formattable (JNum 500)"
    by (simp add: formattable_def statusTextOf_def dataErrorOf_def)
  note t1 = formatStackdriverError_tolerant[where error="?bad" and parse=readJSON
      and pre="''Stackdriver: Error: ''" and raw="''Bad Gateway''",
      THEN conjunct2, THEN mp, OF f1, THEN conjunct1, THEN mp]
  note t2 = formatStackdriverError_tolerant[where error=unprintableCodeError and parse=readJSON
      and pre="''Stackdriver: ''" and raw=unprintableCodeText,
      THEN conjunct2, THEN mp, OF f2, THEN conjunct1, THEN mp]
  note t3 = formatStackdriverError_tolerant[where error=emptyError and parse=readJSON
      and pre="''Stackdriver: ''" and raw=emptyErrorText
      and res="JObj [(''error'', JObj [])]" and resError="JObj []"
      and code=JUndefined and msg=JUndefined and c="''undefined''" and m="''undefined''",
      THEN conjunct2, THEN mp, OF f3, THEN conjunct2, THEN mp]
  note t4 = formatStackdriverError_tolerant[where error="JNum 500" and parse=readJSON,
      THEN conjunct1, THEN mp, OF f4]
  have 1: "formatStackdriverError readJSON ?bad = Inr ''Stackdriver: Error: Bad Gateway''"
    using t1 readJSON_garbage by simp
  have "\<not> convertible ownToString" by (simp add: ownToString_def)
  then have 2: "formatStackdriverError readJSON unprintableCodeError =
     Inr (''Stackdriver: '' @ unprintableCodeText)"
    using readJSON_unprintableCode
    by (intro t2 disjI2 exI[of _ "JObj [(''error'', JObj [(''code'', ownToString), (''message'', JStr ''m'')])]"]
          exI[of _ "JObj [(''code'', ownToString), (''message'', JStr ''m'')]"]
          exI[of _ ownToString] exI[of _ "JStr ''m''"])
       (simp add: ownToString_def)
  have 3: "formatStackdriverError readJSON emptyError = Inr ''Stackdriver: undefined. undefined''"
    using t3 readJSON_emptyError by simp
  have 4: "\<not> isl (formatStackdriverError readJSON (JNum 500))"
    using t4 by auto
  show ?thesis using 1 2 3 4 by simp
qed


section \<open>Properties of the metadata resolver\<close>

lemma getDefaultProject_gce_requests:
  "datasource.authenticationType this = ''gce'' \<or> falsy (projectName this) \<Longrightarrow>
     requests (snd (snd (getDefaultProject parse srv this w))) = requests w @ [ensureRequest this]
     \<and> datasource.authenticationType (fst (snd (getDefaultProject parse srv this w))) =
         datasource.authenticationType this
     \<and> datasource.id' (fst (snd (getDefaultProject parse srv this w))) = datasource.id' this"
  by (auto simp: getDefaultProject_def datasourceRequest_def ensureRequest_def
           split: prod.splits sum.splits option.splits)

lemma getDefaultProject_cached:
  "datasource.authenticationType this \<noteq> ''gce'' \<Longrightarrow> \<not> falsy (projectName this) \<Longrightarrow>
     getDefaultProject parse srv this w = (Inr (projectName this), this, w)"
  by (simp add: getDefaultProject_def)

lemma getDefaultProject_success:
  "getDefaultProject parse srv this w = (Inr p, this1, w1) \<Longrightarrow>
     projectName this1 = p \<and> datasource.authenticationType this1 = datasource.authenticationType this"
  by (auto simp: getDefaultProject_def datasourceRequest_def
           split: prod.splits sum.splits option.splits if_splits)

text \<open>
  Claim C1, as stated, fails: with authentication type \<open>gce\<close> two calls, the first of which
  succeeds, issue two requests.
\<close>

theorem getDefaultProject_gce_counterexample:
  "getDefaultProjectTwice readJSON stackdriver gceDatasource world0 =
     (Inr (Some ''my-project''), Inr (Some ''my-project''),
      gceDatasource\<lparr>projectName := Some ''my-project''\<rparr>,
      \<lparr>backend = 2, requests = [ensureRequest gceDatasource, ensureRequest gceDatasource],
       events = []\<rparr>)"
  by (simp add: getDefaultProjectTwice_def getDefaultProject_def datasourceRequest_def
        gceDatasource_def constructor_def stackdriver_def tsdbRequest_def sampleResults_def
        world0_def ensureRequest_def)

text \<open>
  Claim C1, amended. With authentication type \<open>gce\<close> every call issues a request, so two
  calls issue two. With any other authentication type and no project configured, a first
  call that resolves a non-empty project issues one request and stores the project, and
  the second call returns the stored project and issues none: two calls, one request.
\<close>

theorem getDefaultProject_caching:
  "(datasource.authenticationType this = ''gce''
      \<longrightarrow> requests (snd (snd (getDefaultProject parse srv this w))) =
            requests w @ [ensureRequest this]
        \<and> requests (snd (snd (snd (getDefaultProjectTwice parse srv this w)))) =
            requests w @ [ensureRequest this, ensureRequest this])
   \<and> (datasource.authenticationType this \<noteq> ''gce'' \<and> falsy (projectName this)
        \<and> getDefaultProject parse srv this w = (Inr (Some p), this1, w1) \<and> p \<noteq> []
      \<longrightarrow> requests w1 = requests w @ [ensureRequest this]
        \<and> getDefaultProject parse srv this1 w1 = (Inr (Some p), this1, w1)
        \<and> getDefaultProjectTwice parse srv this w = (Inr (Some p), Inr (Some p), this1, w1))"
proof (intro conjI impI)
  assume g: "datasource.authenticationType this = ''gce''"
  show 1: "requests (snd (snd (getDefaultProject parse srv this w))) =
            requests w @ [ensureRequest this]"
    using getDefaultProject_gce_requests[of this parse srv w] g by simp
  obtain r this1 w1 where c: "getDefaultProject parse srv this w = (r, this1, w1)"
    by (cases "getDefaultProject parse srv this w") auto
  have g1: "datasource.authenticationType this1 = ''gce''" "datasource.id' this1 = datasource.id' this"
    using getDefaultProject_gce_requests[of this parse srv w] g c by simp_all
  have "requests (snd (snd (getDefaultProject parse srv this1 w1))) =
      requests w1 @ [ensureRequest this1]"
    using getDefaultProject_gce_requests[of this1 parse srv w1] g1 by simp
  moreover have "ensureRequest this1 = ensureRequest this"
    using g1 by (simp add: ensureRequest_def)
  moreover have "requests w1 = requests w @ [ensureRequest this]"
    using 1 c by simp
  ultimately show "requests (snd (snd (snd (getDefaultProjectTwice parse srv this w)))) =
            requests w @ [ensureRequest this, ensureRequest this]"
    using c by (simp add: getDefaultProjectTwice_def)
next
  assume a: "datasource.authenticationType this \<noteq> ''gce'' \<and> falsy (projectName this)
        \<and> getDefaultProject parse srv this w = (Inr (Some p), this1, w1) \<and> p \<noteq> []"
  show 1: "requests w1 = requests w @ [ensureRequest this]"
    using getDefaultProject_gce_requests[of this parse srv w] a by simp
  have s: "projectName this1 = Some p" "datasource.authenticationType this1 \<noteq> ''gce''"
    using getDefaultProject_success[of parse srv this w "Some p" this1 w1] a by simp_all
  then have "\<not> falsy (projectName this1)" using a by (simp add: falsy_def)
  then show 2: "getDefaultProject parse srv this1 w1 = (Inr (Some p), this1, w1)"
    using getDefaultProject_cached[of this1 parse srv w1] s by simp
  show "getDefaultProjectTwice parse srv this w = (Inr (Some p), Inr (Some p), this1, w1)"
    using a 2 by (simp add: getDefaultProjectTwice_def)
qed

text \<open>
  Claim C1, amended, on the sample backend: a \<open>gce\<close> datasource and a \<open>jwt\<close> datasource
  without a project.
\<close>

theorem getDefaultProject_caching_witness:
  "requests (snd (snd (snd (getDefaultProjectTwice readJSON stackdriver gceDatasource world0)))) =
     [ensureRequest gceDatasource, ensureRequest gceDatasource]
   \<and> getDefaultProjectTwice readJSON stackdriver sampleDatasource world0 =
     (Inr (Some ''my-project''), Inr (Some ''my-project''),
      sampleDatasource\<lparr>projectName := Some ''my-project''\<rparr>,
      \<lparr>backend = 1, requests = [ensureRequest sampleDatasource], events = []\<rparr>)"
proof -
  have g: "datasource.authenticationType gceDatasource = ''gce''"
    by (simp add: gceDatasource_def constructor_def)
  have j: "datasource.authenticationType sampleDatasource \<noteq> ''gce''"
    "falsy (projectName sampleDatasource)"
    by (simp_all add: sampleDatasource_def constructor_def falsy_def)
  have f: "getDefaultProject readJSON stackdriver sampleDatasource world0 =
     (Inr (Some ''my-project''), sampleDatasource\<lparr>projectName := Some ''my-project''\<rparr>,
      \<lparr>backend = 1, requests = [ensureRequest sampleDatasource], events = []\<rparr>)"
    by (simp add: getDefaultProject_def datasourceRequest_def
        sampleDatasource_def constructor_def stackdriver_def tsdbRequest_def sampleResults_def
        world0_def ensureRequest_def falsy_def)
  note t1 = getDefaultProject_caching[of gceDatasource readJSON stackdriver world0 "[]"
      gceDatasource world0]
  note t2 = getDefaultProject_caching[of sampleDatasource readJSON stackdriver world0
      "''my-project''" "sampleDatasource\<lparr>projectName := Some ''my-project''\<rparr>"
      "\<lparr>backend = 1, requests = [ensureRequest sampleDatasource], events = []\<rparr>"]
  have 1: "requests (snd (snd (snd (getDefaultProjectTwice readJSON stackdriver gceDatasource world0)))) =
     [ensureRequest gceDatasource, ensureRequest gceDatasource]"
    using t1 g by (simp add: world0_def)
  have 2: "getDefaultProjectTwice readJSON stackdriver sampleDatasource world0 =
     (Inr (Some ''my-project''), Inr (Some ''my-project''),
      sampleDatasource\<lparr>projectName := Some ''my-project''\<rparr>,
      \<lparr>backend = 1, requests = [ensureRequest sampleDatasource], events = []\<rparr>)"
    using t2 j f by simp
  show ?thesis using 1 2 by simp
qed





section \<open>Properties of annotations\<close>

lemma annotationQuery_unfold:
  "annotationQuery dateParse srv replace this options w =
     (case srv (backend w) (annotationRequest replace this options) of
        (Inl error, b') \<Rightarrow>
          (Inl error,
           w\<lparr>backend := b', requests := requests w @ [annotationRequest replace this options]\<rparr>)
      | (Inr resp, b') \<Rightarrow>
          (case results (response.data resp) of
             None \<Rightarrow> Inl TypeError
           | Some rs \<Rightarrow>
               (case map_of rs ''annotationQuery'' of
                  None \<Rightarrow> Inl TypeError
                | Some queryRes \<Rightarrow>
                    (case tables queryRes of
                       None \<Rightarrow> Inl TypeError
                     | Some [] \<Rightarrow> Inl TypeError
                     | Some (table0 # others) \<Rightarrow>
                         Inr (map (\<lambda>v. \<lparr>annotationEvent.annotation = annotationOptions.annotation options,
                                          annotationEvent.time = dateParse (index v 0),
                                          annotationEvent.title = index v 1,
                                          annotationEvent.tags = [],
                                          annotationEvent.text = index v 3\<rparr>)
                                 (rows table0)))),
           w\<lparr>backend := b', requests := requests w @ [annotationRequest replace this options]\<rparr>))"
  by (simp add: annotationQuery_def annotationRequest_def datasourceRequest_def Let_def
           split: prod.splits sum.splits option.splits list.splits)

text \<open>
  Claim C10. Every annotation \<open>annotationQuery\<close> returns has the empty list as its tags.
  When the backend answers with a first table for \<open>annotationQuery\<close>, each row \<open>v\<close> of it
  gives one annotation with \<open>time\<close> \<open>Date.parse(v[0])\<close>, \<open>title\<close> \<open>v[1]\<close> and \<open>text\<close>
  \<open>v[3]\<close>; \<open>v[2]\<close> is not read. The interpolated tags of the annotation's target go into
  the request descriptor only.
\<close>

theorem annotationQuery_results:
  "(annotationQuery dateParse srv replace this options w = (Inr evs, w')
      \<longrightarrow> (\<forall>ev \<in> set evs. annotationEvent.tags ev = []))
   \<and> (srv (backend w) (annotationRequest replace this options) = (Inr resp, b')
        \<and> results (response.data resp) = Some rs
        \<and> map_of rs ''annotationQuery'' = Some queryRes
        \<and> tables queryRes = Some (table0 # others)
      \<longrightarrow> annotationQuery dateParse srv replace this options w =
            (Inr (map (\<lambda>v. \<lparr>annotationEvent.annotation = annotationOptions.annotation options,
                             annotationEvent.time = dateParse (index v 0),
                             annotationEvent.title = index v 1,
                             annotationEvent.tags = [],
                             annotationEvent.text = index v 3\<rparr>)
                    (rows table0)),
             w\<lparr>backend := b', requests := requests w @ [annotationRequest replace this options]\<rparr>))
   \<and> (\<exists>d. request.data (annotationRequest replace this options) =
             Some \<lparr>requestData.from =
                     Some (showInt (timeRange.from (annotationOptions.range' options))),
                   requestData.to =
                     Some (showInt (timeRange.to (annotationOptions.range' options))),
                   requestData.queries = [AnnotationQuery d]\<rparr>
          \<and> annotationDescriptor.tags d =
              replace (annotationTarget.tags (annotation.target (annotationOptions.annotation options)))
                (orEmpty (annotationOptions.scopedVars options)) None)"
proof (intro conjI impI)
  assume "annotationQuery dateParse srv replace this options w = (Inr evs, w')"
  then show "\<forall>ev \<in> set evs. annotationEvent.tags ev = []"
    by (auto simp: annotationQuery_unfold split: prod.splits sum.splits option.splits list.splits)
next
  assume "srv (backend w) (annotationRequest replace this options) = (Inr resp, b')
        \<and> results (response.data resp) = Some rs
        \<and> map_of rs ''annotationQuery'' = Some queryRes
        \<and> tables queryRes = Some (table0 # others)"
  then show "annotationQuery dateParse srv replace this options w =
            (Inr (map (\<lambda>v. \<lparr>annotationEvent.annotation = annotationOptions.annotation options,
                             annotationEvent.time = dateParse (index v 0),
                             annotationEvent.title = index v 1,
                             annotationEvent.tags = [],
                             annotationEvent.text = index v 3\<rparr>)
                    (rows table0)),
             w\<lparr>backend := b', requests := requests w @ [annotationRequest replace this options]\<rparr>)"
    by (simp add: annotationQuery_unfold)
next
  show "\<exists>d. request.data (annotationRequest replace this options) =
             Some \<lparr>requestData.from =
                     Some (showInt (timeRange.from (annotationOptions.range' options))),
                   requestData.to =
                     Some (showInt (timeRange.to (annotationOptions.range' options))),
                   requestData.queries = [AnnotationQuery d]\<rparr>
          \<and> annotationDescriptor.tags d =
              replace (annotationTarget.tags (annotation.target (annotationOptions.annotation options)))
                (orEmpty (annotationOptions.scopedVars options)) None"
    by (simp add: annotationRequest_def tsdbRequest_def annotationQueries_def Let_def)
qed

text \<open>
  Claim C10 on the sample backend, whose table has a full row and a row of two cells.
\<close>

theorem annotationQuery_results_witness:
  "annotationQuery sampleDateParse stackdriver sampleReplace sampleDatasource sampleAnnotation world0 =
     (Inr [\<lparr>annotationEvent.annotation = annotationOptions.annotation sampleAnnotation,
            annotationEvent.time = Some 1000, annotationEvent.title = JStr ''deploy'',
            annotationEvent.tags = [], annotationEvent.text = JStr ''v1.2''\<rparr>,
           \<lparr>annotationEvent.annotation = annotationOptions.annotation sampleAnnotation,
            annotationEvent.time = None, annotationEvent.title = JStr ''short row'',
            annotationEvent.tags = [], annotationEvent.text = JUndefined\<rparr>],
      \<lparr>backend = 1,
       requests = [annotationRequest sampleReplace sampleDatasource sampleAnnotation],
       events = []\<rparr>)
   \<and> list_all (\<lambda>ev. annotationEvent.tags ev = [])
       (projr (fst (annotationQuery sampleDateParse stackdriver sampleReplace sampleDatasource
                      sampleAnnotation world0)))"
proof -
  let ?req = "annotationRequest sampleReplace sampleDatasource sampleAnnotation"
  let ?resp = "\<lparr>status = 200, statusText = ''OK'',
                response.data = \<lparr>results = Some sampleResults, metricDescriptors = None\<rparr>\<rparr>"
  let ?qr = "\<lparr>queryResult.refId = ''annotationQuery'', series = None, queryResult.meta = None,
          tables = Some [\<lparr>rows = [ [JStr ''1970-01-01T00:00:01Z'', JStr ''deploy'', JStr ''unused'', JStr ''v1.2''],
                                    [JStr ''yesterday'', JStr ''short row'']]\<rparr>]\<rparr>"
  let ?tb = "\<lparr>rows = [ [JStr ''1970-01-01T00:00:01Z'', JStr ''deploy'', JStr ''unused'', JStr ''v1.2''],
                                    [JStr ''yesterday'', JStr ''short row'']]\<rparr>"
  have p: "request.method ?req = ''POST''"
    by (simp add: annotationRequest_def tsdbRequest_def)
  have s: "stackdriver (backend world0) ?req = (Inr ?resp, 1)
        \<and> results (response.data ?resp) = Some sampleResults
        \<and> map_of sampleResults ''annotationQuery'' = Some ?qr
        \<and> tables ?qr = Some (?tb # [])"
    by (simp add: stackdriver_def p world0_def sampleResults_def)
  note t = annotationQuery_results[of sampleDateParse stackdriver sampleReplace sampleDatasource
      sampleAnnotation world0 _ _ ?resp 1 sampleResults ?qr ?tb "[]"]
  have 1: "annotationQuery sampleDateParse stackdriver sampleReplace sampleDatasource sampleAnnotation world0 =
     (Inr [\<lparr>annotationEvent.annotation = annotationOptions.annotation sampleAnnotation,
            annotationEvent.time = Some 1000, annotationEvent.title = JStr ''deploy'',
            annotationEvent.tags = [], annotationEvent.text = JStr ''v1.2''\<rparr>,
           \<lparr>annotationEvent.annotation = annotationOptions.annotation sampleAnnotation,
            annotationEvent.time = None, annotationEvent.title = JStr ''short row'',
            annotationEvent.tags = [], annotationEvent.text = JUndefined\<rparr>],
      \<lparr>backend = 1, requests = [?req], events = []\<rparr>)"
    using t s by (simp add: index_def sampleDateParse_def world0_def)
  then have 2: "list_all (\<lambda>ev. annotationEvent.tags ev = [])
       (projr (fst (annotationQuery sampleDateParse stackdriver sampleReplace sampleDatasource
                      sampleAnnotation world0)))"
    using t by (simp add: list_all_iff)
  show ?thesis using 1 2 by simp
qed

end
